theory Spec2Isabelle
  imports Complex_Main "HOL-Library.Multiset"
begin

section \<open>The shift-and-invert generalized eigen solver: data model\<close>

text \<open>
  The class \<^verbatim>\<open>SymGEigsShiftSolver<Scalar, OpType, BOpType, GEigsMode::ShiftInvert>\<close> of
  \<^verbatim>\<open>SymGEigsShiftSolver.h\<close> derives from \<^verbatim>\<open>SymEigsBase\<close>, adds one member
  (\<^verbatim>\<open>const Scalar m_sigma\<close>), overrides \<^verbatim>\<open>sort_ritzpair\<close> and has one constructor.

  \<^item> \<^verbatim>\<open>Scalar\<close> is a template parameter. It is the type variable \<open>'a\<close>, and the only operations
    the class uses on it are \<^verbatim>\<open>Scalar(1)\<close>, \<^verbatim>\<open>/\<close> and \<^verbatim>\<open>+\<close>: the sort of \<open>'a\<close> is
    \<open>{one, inverse, plus}\<close>, three operation symbols without any law. What \<open>1 / 0\<close> is, or whether
    \<open>+\<close> rounds, is decided by the instance; every theorem below that is stated for \<open>'a\<close> holds
    for each of them. The instance \<open>ieee\<close> defined further down has the infinities and the NaN
    of floating point.
  \<^item> \<^verbatim>\<open>Index\<close> is \<^verbatim>\<open>Eigen::Index\<close>, a signed integer: \<open>int\<close>.
  \<^item> \<^verbatim>\<open>SortRule\<close> is only passed on by this class: the type variable \<open>'r\<close>.
  \<^item> An exception travels as \<open>Inl\<close> of a result. \<open>Thrown e\<close> is an exception of a collaborator
    (the Base solver, a user operator), \<open>Assertion_failed\<close> is Eigen's range assertion of
    \<^verbatim>\<open>head(n)\<close>, \<open>Configuration_error\<close> is the construction error of the specification.
    A member function works on the object in place, so when it throws the object stays as the
    throw found it: the failure of a member function carries the object and the operators as
    they are at that moment. A constructor that throws leaves no object.
  \<^item> The user's operator object \<^verbatim>\<open>op\<close> is passed by reference and mutated by
    \<^verbatim>\<open>set_shift\<close>; its state is the explicit world \<open>'w\<close>, which every call that can reach
    the operator receives and returns.
\<close>

datatype 'e failure = Assertion_failed | Configuration_error | Thrown 'e

text \<open>
  The members of \<^verbatim>\<open>SymEigsBase\<close> this class names (\<^verbatim>\<open>using Base::m_nev\<close>,
  \<^verbatim>\<open>using Base::m_ritz_val\<close>). All other members of the Base solver (Ritz vectors, convergence
  flags, status, the operator it holds) are the extension part of the record scheme.
\<close>

record 'a SymEigsBase =
  m_nev :: int
  m_ritz_val :: "'a list"

text \<open>The derived object: the Base subobject and the private member \<^verbatim>\<open>m_sigma\<close>.\<close>

record ('a, 'z) SymGEigsShiftSolver =
  Base :: "('a, 'z) SymEigsBase_scheme"
  m_sigma :: 'a

section \<open>The override of sort_ritzpair\<close>

text \<open>
  The outcome of a member function on an object of type \<open>'s\<close>: \<open>Inr\<close> of the object and the
  operators after a return, \<open>Inl\<close> of the failure with the object and the operators as the
  throw left them.
\<close>

type_synonym ('s, 'w, 'e) outcome = "('e failure \<times> 's \<times> 'w) + ('s \<times> 'w)"

text \<open>
  A member function of the Base class run on the derived object: it sees and changes the
  Base subobject only, and may throw.
\<close>

definition via_Base ::
  "(('a, 'z) SymEigsBase_scheme \<Rightarrow> 'w \<Rightarrow> (('a, 'z) SymEigsBase_scheme, 'w, 'e) outcome) \<Rightarrow>
   ('a, 'z) SymGEigsShiftSolver \<Rightarrow> 'w \<Rightarrow> (('a, 'z) SymGEigsShiftSolver, 'w, 'e) outcome" where
  "via_Base f this w =
     (case f (Base this) w of
        Inl (e, b, w') \<Rightarrow> Inl (e, this\<lparr>Base := b\<rparr>, w')
      | Inr (b, w') \<Rightarrow> Inr (this\<lparr>Base := b\<rparr>, w'))"

text \<open>
  The first statement of \<^verbatim>\<open>sort_ritzpair\<close>:
  \<^verbatim>\<open>m_ritz_val.head(m_nev).array() = Scalar(1) / m_ritz_val.head(m_nev).array() + m_sigma;\<close>
  \<^verbatim>\<open>head(n)\<close> is the block of the first \<open>n\<close> coefficients; Eigen asserts \<open>0 \<le> n \<le> size\<close>, and
  \<open>None\<close> is that assertion failing. The assignment is coefficient-wise, so reading and writing
  the same block is harmless.
\<close>

definition transform_back ::
  "('a::{one,inverse,plus}, 'z) SymGEigsShiftSolver \<Rightarrow> ('a, 'z) SymGEigsShiftSolver option" where
  "transform_back this =
     (let n = m_nev (Base this); v = m_ritz_val (Base this)
      in if 0 \<le> n \<and> n \<le> int (length v)
         then Some (this\<lparr>Base := (Base this)\<lparr>m_ritz_val :=
                 map (\<lambda>nu. 1 / nu + m_sigma this) (take (nat n) v) @ drop (nat n) v\<rparr>\<rparr>)
         else None)"

text \<open>
  \<^verbatim>\<open>void sort_ritzpair(SortRule sort_rule) override\<close>: the statement above, then
  \<^verbatim>\<open>Base::sort_ritzpair(sort_rule)\<close>. \<^verbatim>\<open>SymEigsBase.h\<close> is not among the sources, so the Base
  class's own \<^verbatim>\<open>sort_ritzpair\<close> is the parameter \<open>Base_sort_ritzpair\<close>. The override has no
  \<^verbatim>\<open>try\<close> block: when the Base function throws, the rewrite of the first statement stays.
\<close>

definition sort_ritzpair ::
  "('r \<Rightarrow> ('a, 'z) SymEigsBase_scheme \<Rightarrow> 'w \<Rightarrow> (('a, 'z) SymEigsBase_scheme, 'w, 'e) outcome) \<Rightarrow>
   'r \<Rightarrow> ('a::{one,inverse,plus}, 'z) SymGEigsShiftSolver \<Rightarrow> 'w \<Rightarrow>
   (('a, 'z) SymGEigsShiftSolver, 'w, 'e) outcome" where
  "sort_ritzpair Base_sort_ritzpair sort_rule this w =
     (case transform_back this of
        None \<Rightarrow> Inl (Assertion_failed, this, w)
      | Some this' \<Rightarrow> via_Base (Base_sort_ritzpair sort_rule) this' w)"

section \<open>The operators and the constructor\<close>

text \<open>
  Modelled from the spec: the interfaces of the two user-supplied operators (their classes are
  template parameters, \<^verbatim>\<open>OpType\<close> and \<^verbatim>\<open>BOpType\<close>; no operator class is among the sources).
  Section 6: the \<open>Solve\<close> operator exposes the problem dimension, \<^verbatim>\<open>SetShift\<close> and \<^verbatim>\<open>Apply\<close>; the
  \<open>Mult\<close> operator exposes the dimension and \<^verbatim>\<open>Apply\<close> and is stateless with respect to the shift.
  Of these the source calls \<^verbatim>\<open>op.set_shift(m_sigma)\<close>. The state of the \<open>Solve\<close> object (the
  shift it was given, a factorization) is the world \<open>'w\<close>; \<^verbatim>\<open>set_shift\<close> changes it and
  \<^verbatim>\<open>Apply\<close> reads it.
\<close>

record ('a, 'w, 'e) OpType =
  Solve_dimension :: int
  set_shift :: "'a \<Rightarrow> 'w \<Rightarrow> 'e failure + 'w"
  Solve_Apply :: "'w \<Rightarrow> 'a list \<Rightarrow> 'e failure + 'a list"

record ('a, 'e) BOpType =
  Mult_dimension :: int
  Mult_Apply :: "'a list \<Rightarrow> 'e failure + 'a list"

text \<open>
  Modelled from the spec: the operator composer \<^verbatim>\<open>SymGEigsShiftInvertOp\<close>, whose header
  \<^verbatim>\<open>MatOp/internal/SymGEigsShiftInvertOp.h\<close> is included by the source and is not among the
  sources. Sections 2 and 4.1: it exposes a single composed operator with
  \<open>Transformed(v) = Solve(Mult(v))\<close>, propagates a failure of either sub-operator unchanged,
  declares the same dimension as both sub-operators, and a mismatch between their declared
  dimensions is a configuration error raised at construction. It holds the \<open>Solve\<close> operator by
  reference: an application reads the state the \<open>Solve\<close> object has at that moment.
\<close>

record ('a, 'w, 'e) SymGEigsShiftInvertOp =
  Transformed_dimension :: int
  Transformed :: "'w \<Rightarrow> 'a list \<Rightarrow> 'e failure + 'a list"

definition SymGEigsShiftInvertOp_ctor ::
  "('a, 'w, 'e) OpType \<Rightarrow> ('a, 'e) BOpType \<Rightarrow> 'e failure + ('a, 'w, 'e) SymGEigsShiftInvertOp" where
  "SymGEigsShiftInvertOp_ctor Solve Mult =
     (if Solve_dimension Solve \<noteq> Mult_dimension Mult then Inl Configuration_error
      else Inr \<lparr>Transformed_dimension = Solve_dimension Solve,
                Transformed = (\<lambda>w v. case Mult_Apply Mult v of
                                         Inl e \<Rightarrow> Inl e
                                       | Inr u \<Rightarrow> Solve_Apply Solve w u)\<rparr>)"

text \<open>
  The constructor
  \<^verbatim>\<open>SymGEigsShiftSolver(OpType& op, BOpType& Bop, Index nev, Index ncv, const Scalar& sigma)\<close>.
  C++ runs it in this order: the argument \<^verbatim>\<open>SymGEigsShiftInvertOp<...>(op, Bop)\<close> of the Base
  initializer, the Base constructor, the member initializer \<^verbatim>\<open>m_sigma(sigma)\<close>, and the body
  \<^verbatim>\<open>op.set_shift(m_sigma)\<close>. An exception at any step ends the construction. The constructor
  of \<^verbatim>\<open>SymEigsBase\<close> is not among the sources: it is the parameter \<open>Base_ctor\<close>.
\<close>

definition SymGEigsShiftSolver_ctor ::
  "(('a, 'w, 'e) SymGEigsShiftInvertOp \<Rightarrow> ('a, 'e) BOpType \<Rightarrow> int \<Rightarrow> int \<Rightarrow> 'w \<Rightarrow>
      'e failure + (('a, 'z) SymEigsBase_scheme \<times> 'w)) \<Rightarrow>
   ('a, 'w, 'e) OpType \<Rightarrow> ('a, 'e) BOpType \<Rightarrow> int \<Rightarrow> int \<Rightarrow> 'a \<Rightarrow> 'w \<Rightarrow>
   'e failure + (('a, 'z) SymGEigsShiftSolver \<times> 'w)" where
  "SymGEigsShiftSolver_ctor Base_ctor op Bop nev ncv sigma w =
     (case SymGEigsShiftInvertOp_ctor op Bop of
        Inl e \<Rightarrow> Inl e
      | Inr T \<Rightarrow>
          (case Base_ctor T Bop nev ncv w of
             Inl e \<Rightarrow> Inl e
           | Inr (b, w1) \<Rightarrow>
               (case set_shift op sigma w1 of
                  Inl e \<Rightarrow> Inl e
                | Inr w2 \<Rightarrow> Inr (\<lparr>Base = b, m_sigma = sigma\<rparr>, w2))))"

text \<open>
  The construction as section 4.2 of the specification lists its steps, for comparison with
  the constructor above: validate \<open>1 \<le> nev < ncv \<le> n\<close>, inject the shift into \<open>Solve\<close>, build the
  composed operator, construct the Base solver bound to the composed operator and \<open>Mult\<close>.
\<close>

definition Construct_spec ::
  "(('a, 'w, 'e) SymGEigsShiftInvertOp \<Rightarrow> ('a, 'e) BOpType \<Rightarrow> int \<Rightarrow> int \<Rightarrow> 'w \<Rightarrow>
      'e failure + (('a, 'z) SymEigsBase_scheme \<times> 'w)) \<Rightarrow>
   ('a, 'w, 'e) OpType \<Rightarrow> ('a, 'e) BOpType \<Rightarrow> int \<Rightarrow> int \<Rightarrow> 'a \<Rightarrow> 'w \<Rightarrow>
   'e failure + (('a, 'z) SymGEigsShiftSolver \<times> 'w)" where
  "Construct_spec Base_ctor Solve Mult nev ncv sigma w =
     (if \<not> (1 \<le> nev \<and> nev < ncv \<and> ncv \<le> Solve_dimension Solve) then Inl Configuration_error
      else case set_shift Solve sigma w of
             Inl e \<Rightarrow> Inl e
           | Inr w1 \<Rightarrow>
               (case SymGEigsShiftInvertOp_ctor Solve Mult of
                  Inl e \<Rightarrow> Inl e
                | Inr T \<Rightarrow>
                    (case Base_ctor T Mult nev ncv w1 of
                       Inl e \<Rightarrow> Inl e
                     | Inr (b, w2) \<Rightarrow> Inr (\<lparr>Base = b, m_sigma = sigma\<rparr>, w2))))"

section \<open>The lifetime of a solver object\<close>

text \<open>
  The class has no public member of its own besides the constructor. After its construction
  a solver object changes through a member function inherited from the Base class
  (\<^verbatim>\<open>init\<close>, the iteration of \<^verbatim>\<open>compute\<close>) or through the override \<^verbatim>\<open>sort_ritzpair\<close>,
  which the Base class calls as a virtual function; the object lives on when one of them
  throws. The operators belong to the caller and may change between two calls.
\<close>

inductive reachable ::
  "(('a, 'w, 'e) SymGEigsShiftInvertOp \<Rightarrow> ('a, 'e) BOpType \<Rightarrow> int \<Rightarrow> int \<Rightarrow> 'w \<Rightarrow>
      'e failure + (('a::{one,inverse,plus}, 'z) SymEigsBase_scheme \<times> 'w)) \<Rightarrow>
   ('a, 'w, 'e) OpType \<Rightarrow> ('a, 'e) BOpType \<Rightarrow> int \<Rightarrow> int \<Rightarrow> 'a \<Rightarrow>
   ('r \<Rightarrow> ('a, 'z) SymEigsBase_scheme \<Rightarrow> 'w \<Rightarrow> (('a, 'z) SymEigsBase_scheme, 'w, 'e) outcome) \<Rightarrow>
   ('a, 'z) SymGEigsShiftSolver \<times> 'w \<Rightarrow> bool"
  for Base_ctor op Bop nev ncv sigma Base_sort_ritzpair
where
  constructed:
    "SymGEigsShiftSolver_ctor Base_ctor op Bop nev ncv sigma w = Inr (this, w') \<Longrightarrow>
     reachable Base_ctor op Bop nev ncv sigma Base_sort_ritzpair (this, w')"
| inherited:
    "reachable Base_ctor op Bop nev ncv sigma Base_sort_ritzpair (this, w) \<Longrightarrow>
     via_Base f this w = (Inr (this', w') :: (_, _, 'e) outcome) \<Longrightarrow>
     reachable Base_ctor op Bop nev ncv sigma Base_sort_ritzpair (this', w')"
| inherited_throws:
    "reachable Base_ctor op Bop nev ncv sigma Base_sort_ritzpair (this, w) \<Longrightarrow>
     via_Base f this w = (Inl (e, this', w') :: (_, _, 'e) outcome) \<Longrightarrow>
     reachable Base_ctor op Bop nev ncv sigma Base_sort_ritzpair (this', w')"
| sorted:
    "reachable Base_ctor op Bop nev ncv sigma Base_sort_ritzpair (this, w) \<Longrightarrow>
     sort_ritzpair Base_sort_ritzpair sort_rule this w = Inr (this', w') \<Longrightarrow>
     reachable Base_ctor op Bop nev ncv sigma Base_sort_ritzpair (this', w')"
| sorted_throws:
    "reachable Base_ctor op Bop nev ncv sigma Base_sort_ritzpair (this, w) \<Longrightarrow>
     sort_ritzpair Base_sort_ritzpair sort_rule this w = Inl (e, this', w') \<Longrightarrow>
     reachable Base_ctor op Bop nev ncv sigma Base_sort_ritzpair (this', w')"
| elsewhere:
    "reachable Base_ctor op Bop nev ncv sigma Base_sort_ritzpair (this, w) \<Longrightarrow>
     reachable Base_ctor op Bop nev ncv sigma Base_sort_ritzpair (this, w')"

section \<open>Recording the calls of set_shift\<close>

text \<open>
  To count the calls an operator receives, it is wrapped: \<open>spy op\<close> behaves as \<open>op\<close> and keeps,
  next to the state of \<open>op\<close>, a log to which each successful \<^verbatim>\<open>set_shift\<close> appends its
  argument. \<open>shifts_of\<close> reads the arguments of the \<^verbatim>\<open>set_shift\<close> calls off a log, in order.
\<close>

datatype 'a event = Base_constructed int int | Shift_set 'a

fun shifts_of :: "'a event list \<Rightarrow> 'a list" where
  "shifts_of [] = []"
| "shifts_of (Shift_set s # es) = s # shifts_of es"
| "shifts_of (Base_constructed nev ncv # es) = shifts_of es"

definition spy :: "('a, 'w, 'e) OpType \<Rightarrow> ('a, 'w \<times> 'a event list, 'e) OpType" where
  "spy op = \<lparr>Solve_dimension = Solve_dimension op,
             set_shift = (\<lambda>sigma (w, log). case set_shift op sigma w of
                                              Inl e \<Rightarrow> Inl e
                                            | Inr w' \<Rightarrow> Inr (w', log @ [Shift_set sigma])),
             Solve_Apply = (\<lambda>(w, log). Solve_Apply op w)\<rparr>"

section \<open>Stand-ins for the collaborators\<close>

text \<open>
  Modelled from the spec: section 8 asks for the override to be exercised "with a stub Base
  solver exposing a fixed \<open>\<nu>\<close> buffer". The Base solver and the operator classes are not among the
  sources; the stand-ins below take their place where a theorem is applied to a concrete
  input.
  \<^item> The stub constructor validates \<open>1 \<le> nev < ncv \<le> n\<close> (section 3: the validation is the Base
    solver's), exposes the given buffer of \<open>ncv\<close> Ritz values, and notes its call in the log.
    A second stub constructor does the same and keeps the operator it is handed among the
    other members of the Base solver.
  \<^item> The stub sort orders the first \<open>nev\<close> Ritz values by the rule, for two of the rules section
    3 names: largest magnitude first, smallest algebraic value first.
  \<^item> The stub \<open>Solve\<close> operator is \<open>(A - \<sigma>B)\<^sup>-\<^sup>1\<close> for a diagonal \<open>A\<close>, given by its diagonal, and
    \<open>B\<close> the identity. Its state is the shift it was given, if any; \<^verbatim>\<open>set_shift\<close> fails when
    \<open>A - \<sigma>B\<close> is singular, and applying the operator before a shift was set fails. The stub
    \<open>Mult\<close> operator is the identity of dimension \<open>n\<close>.
\<close>

datatype SortRule = LargestMagn | SmallestAlge

definition stub_op :: "rat list \<Rightarrow> (rat, rat option, unit) OpType" where
  "stub_op A = \<lparr>Solve_dimension = int (length A),
                set_shift = (\<lambda>sigma w. if sigma \<in> set A then Inl (Thrown ()) else Inr (Some sigma)),
                Solve_Apply = (\<lambda>w v. case w of
                                         None \<Rightarrow> Inl (Thrown ())
                                       | Some sigma \<Rightarrow> Inr (map2 (\<lambda>a x. x / (a - sigma)) A v))\<rparr>"

definition stub_Bop :: "int \<Rightarrow> (rat, unit) BOpType" where
  "stub_Bop n = \<lparr>Mult_dimension = n, Mult_Apply = (\<lambda>v. Inr v)\<rparr>"

definition stub_Base_ctor ::
  "rat list \<Rightarrow> (rat, 'w \<times> rat event list, unit) SymGEigsShiftInvertOp \<Rightarrow> (rat, unit) BOpType \<Rightarrow>
   int \<Rightarrow> int \<Rightarrow> 'w \<times> rat event list \<Rightarrow>
   unit failure + (rat SymEigsBase \<times> ('w \<times> rat event list))" where
  "stub_Base_ctor nus T Bop nev ncv st =
     (if 1 \<le> nev \<and> nev < ncv \<and> ncv \<le> Transformed_dimension T \<and> int (length nus) = ncv
      then Inr (\<lparr>m_nev = nev, m_ritz_val = nus\<rparr>, (fst st, snd st @ [Base_constructed nev ncv]))
      else Inl Configuration_error)"

definition stub_Base_ctor_keeping ::
  "rat list \<Rightarrow> (rat, 'w \<times> rat event list, unit) SymGEigsShiftInvertOp \<Rightarrow> (rat, unit) BOpType \<Rightarrow>
   int \<Rightarrow> int \<Rightarrow> 'w \<times> rat event list \<Rightarrow>
   unit failure + ((rat, (rat, 'w \<times> rat event list, unit) SymGEigsShiftInvertOp) SymEigsBase_scheme
                    \<times> ('w \<times> rat event list))" where
  "stub_Base_ctor_keeping nus T Bop nev ncv st =
     (if 1 \<le> nev \<and> nev < ncv \<and> ncv \<le> Transformed_dimension T \<and> int (length nus) = ncv
      then Inr (\<lparr>m_nev = nev, m_ritz_val = nus, \<dots> = T\<rparr>,
                (fst st, snd st @ [Base_constructed nev ncv]))
      else Inl Configuration_error)"

definition stub_Base_sort_ritzpair ::
  "SortRule \<Rightarrow> (rat, 'z) SymEigsBase_scheme \<Rightarrow> 'w \<Rightarrow>
   ((rat, 'z) SymEigsBase_scheme, 'w, unit) outcome" where
  "stub_Base_sort_ritzpair sort_rule b w =
     (let n = nat (m_nev b); v = m_ritz_val b
      in Inr (b\<lparr>m_ritz_val :=
                 (case sort_rule of
                    LargestMagn \<Rightarrow> rev (sort_key abs (take n v))
                  | SmallestAlge \<Rightarrow> sort (take n v)) @ drop n v\<rparr>, w))"

text \<open>
  Modelled from the spec: the scenario of section 8, \<open>A = diag(1,2,3,4,5)\<close>, \<open>B\<close> the identity,
  \<open>\<sigma> = 2.5\<close>, \<open>nev = 2\<close>, as a solver object whose Base part holds a given Ritz-value buffer.
  The transformed values \<open>1 / (\<lambda> - \<sigma>)\<close> of the scenario are \<open>-2/3\<close>, \<open>-2\<close>, \<open>2\<close>, \<open>2/3\<close> and \<open>2/5\<close>;
  those of the two eigenvalues nearest to the shift, 2 and 3, are \<open>-2\<close> and \<open>2\<close>.
\<close>

definition scenario :: "rat list \<Rightarrow> (rat, unit) SymGEigsShiftSolver" where
  "scenario nus = \<lparr>Base = \<lparr>m_nev = 2, m_ritz_val = nus\<rparr>, m_sigma = 5 / 2\<rparr>"

section \<open>A Scalar with infinities\<close>

text \<open>
  The Scalar types the class supports are \<^verbatim>\<open>float\<close>, \<^verbatim>\<open>double\<close> and \<^verbatim>\<open>long double\<close> (the
  documentation of the template parameter). Their arithmetic is total: a division by zero
  returns an infinity or a NaN and raises nothing. The type \<open>ieee\<close> is an instance of the
  Scalar sort with these special values: the finite values (\<open>Finite 0\<close> is the zero of
  positive sign), the zero of negative sign, the two infinities and NaN, with the division
  and the addition of IEEE 754 on them. Finite results are exact here: rounding is left
  out, and plays no part where a value is divided by zero.
\<close>

datatype ieee = Finite rat | MinusZero | PlusInf | MinusInf | NaN

fun val :: "ieee \<Rightarrow> rat" where
  "val (Finite a) = a"
| "val MinusZero = 0"
| "val PlusInf = 0"
| "val MinusInf = 0"
| "val NaN = 0"

fun negative :: "ieee \<Rightarrow> bool" where
  "negative (Finite a) = (a < 0)"
| "negative MinusZero = True"
| "negative PlusInf = False"
| "negative MinusInf = True"
| "negative NaN = False"

fun is_finite :: "ieee \<Rightarrow> bool" where
  "is_finite (Finite a) = True"
| "is_finite MinusZero = True"
| "is_finite PlusInf = False"
| "is_finite MinusInf = False"
| "is_finite NaN = False"

fun is_inf :: "ieee \<Rightarrow> bool" where
  "is_inf PlusInf = True"
| "is_inf MinusInf = True"
| "is_inf (Finite a) = False"
| "is_inf MinusZero = False"
| "is_inf NaN = False"

definition is_zero :: "ieee \<Rightarrow> bool" where
  "is_zero x = (x = Finite 0 \<or> x = MinusZero)"

definition zero_of :: "bool \<Rightarrow> ieee" where
  "zero_of neg = (if neg then MinusZero else Finite 0)"

definition inf_of :: "bool \<Rightarrow> ieee" where
  "inf_of neg = (if neg then MinusInf else PlusInf)"

instantiation ieee :: "{zero,one,plus,inverse}"
begin

definition zero_ieee :: ieee where
  "zero_ieee = Finite 0"

definition one_ieee :: ieee where
  "one_ieee = Finite 1"

definition plus_ieee :: "ieee \<Rightarrow> ieee \<Rightarrow> ieee" where
  "plus_ieee x y =
     (if x = NaN \<or> y = NaN then NaN
      else if is_inf x then (if is_inf y \<and> y \<noteq> x then NaN else x)
      else if is_inf y then y
      else if x = MinusZero \<and> y = MinusZero then MinusZero
      else Finite (val x + val y))"

definition divide_ieee :: "ieee \<Rightarrow> ieee \<Rightarrow> ieee" where
  "divide_ieee x y =
     (if x = NaN \<or> y = NaN then NaN
      else if is_inf x then (if is_inf y then NaN else inf_of (negative x \<noteq> negative y))
      else if is_inf y then zero_of (negative x \<noteq> negative y)
      else if is_zero y then (if is_zero x then NaN else inf_of (negative x \<noteq> negative y))
      else if is_zero x then zero_of (negative x \<noteq> negative y)
      else Finite (val x / val y))"

definition inverse_ieee :: "ieee \<Rightarrow> ieee" where
  "inverse_ieee x = divide (Finite 1) x"

instance ..

end

text \<open>
  Modelled from the spec: stand-ins for the Base class's sort over \<open>ieee\<close> (section 8, a stub
  Base solver). The first orders the first \<open>nev\<close> Ritz values by the rule, by insertion;
  a comparison with NaN is false, as in C++. The second rejects the sort rule: it throws and
  leaves the Base solver as it found it.
\<close>

fun magnitude_ge :: "ieee \<Rightarrow> ieee \<Rightarrow> bool" where
  "magnitude_ge NaN y = False"
| "magnitude_ge x NaN = False"
| "magnitude_ge PlusInf y = True"
| "magnitude_ge MinusInf y = True"
| "magnitude_ge x PlusInf = False"
| "magnitude_ge x MinusInf = False"
| "magnitude_ge x y = (\<bar>val x\<bar> \<ge> \<bar>val y\<bar>)"

fun ieee_le :: "ieee \<Rightarrow> ieee \<Rightarrow> bool" where
  "ieee_le NaN y = False"
| "ieee_le x NaN = False"
| "ieee_le MinusInf y = True"
| "ieee_le x PlusInf = True"
| "ieee_le PlusInf y = False"
| "ieee_le x MinusInf = False"
| "ieee_le x y = (val x \<le> val y)"

fun insert_before :: "('a \<Rightarrow> 'a \<Rightarrow> bool) \<Rightarrow> 'a \<Rightarrow> 'a list \<Rightarrow> 'a list" where
  "insert_before precedes x [] = [x]"
| "insert_before precedes x (y # ys) =
     (if precedes x y then x # y # ys else y # insert_before precedes x ys)"

definition sort_before :: "('a \<Rightarrow> 'a \<Rightarrow> bool) \<Rightarrow> 'a list \<Rightarrow> 'a list" where
  "sort_before precedes xs = foldr (insert_before precedes) xs []"

definition stub_Base_sort_ieee ::
  "SortRule \<Rightarrow> (ieee, 'z) SymEigsBase_scheme \<Rightarrow> 'w \<Rightarrow>
   ((ieee, 'z) SymEigsBase_scheme, 'w, unit) outcome" where
  "stub_Base_sort_ieee sort_rule b w =
     (let n = nat (m_nev b); v = m_ritz_val b
      in Inr (b\<lparr>m_ritz_val :=
                 sort_before (case sort_rule of
                                LargestMagn \<Rightarrow> magnitude_ge
                              | SmallestAlge \<Rightarrow> ieee_le) (take n v) @ drop n v\<rparr>, w))"

definition stub_Base_sort_rejects ::
  "'r \<Rightarrow> ('a, 'z) SymEigsBase_scheme \<Rightarrow> 'w \<Rightarrow> (('a, 'z) SymEigsBase_scheme, 'w, unit) outcome" where
  "stub_Base_sort_rejects sort_rule b w = Inl (Thrown (), b, w)"

definition scenario_ieee :: "ieee list \<Rightarrow> (ieee, unit) SymGEigsShiftSolver" where
  "scenario_ieee nus = \<lparr>Base = \<lparr>m_nev = 2, m_ritz_val = nus\<rparr>, m_sigma = Finite (5 / 2)\<rparr>"

section \<open>Facts about the rewritten block\<close>

lemma head_block_nth:
  "i < n \<Longrightarrow> n \<le> length v \<Longrightarrow> (map f (take n v) @ drop n v) ! i = f (v ! i)"
  by (simp add: nth_append)

lemma tail_block_nth:
  "n \<le> i \<Longrightarrow> n \<le> length v \<Longrightarrow> i < length v \<Longrightarrow> (map f (take n v) @ drop n v) ! i = v ! i"
  by (simp add: nth_append)

lemma transform_back_in_range:
  assumes "0 \<le> m_nev (Base this)"
    and "m_nev (Base this) \<le> int (length (m_ritz_val (Base this)))"
  shows "transform_back this =
    Some (this\<lparr>Base := (Base this)\<lparr>m_ritz_val :=
      map (\<lambda>nu. 1 / nu + m_sigma this) (take (nat (m_nev (Base this))) (m_ritz_val (Base this)))
      @ drop (nat (m_nev (Base this))) (m_ritz_val (Base this))\<rparr>\<rparr>)"
  using assms by (simp add: transform_back_def Let_def)

lemma transform_back_InrD:
  assumes "transform_back this = Some this'"
  shows "0 \<le> m_nev (Base this) \<and> m_nev (Base this) \<le> int (length (m_ritz_val (Base this)))
    \<and> this' = this\<lparr>Base := (Base this)\<lparr>m_ritz_val :=
      map (\<lambda>nu. 1 / nu + m_sigma this) (take (nat (m_nev (Base this))) (m_ritz_val (Base this)))
      @ drop (nat (m_nev (Base this))) (m_ritz_val (Base this))\<rparr>\<rparr>"
  using assms by (auto simp add: transform_back_def Let_def split: if_splits)

lemma sort_ritzpair_after_transform_back:
  "transform_back this = Some this' \<Longrightarrow>
   sort_ritzpair Base_sort_ritzpair sort_rule this w = via_Base (Base_sort_ritzpair sort_rule) this' w"
  by (simp add: sort_ritzpair_def)

lemma via_Base_InrD:
  assumes "via_Base f this w = Inr (this', w')"
  shows "\<exists>b. f (Base this) w = Inr (b, w') \<and> this' = this\<lparr>Base := b\<rparr>"
  using assms by (auto simp add: via_Base_def split: sum.splits prod.splits)

lemma via_Base_InlD:
  assumes "via_Base f this w = Inl (e, this', w')"
  shows "\<exists>b. f (Base this) w = Inl (e, b, w') \<and> this' = this\<lparr>Base := b\<rparr>"
  using assms by (auto simp add: via_Base_def split: sum.splits prod.splits)

lemma sort_ritzpair_InrD:
  assumes "sort_ritzpair Base_sort_ritzpair sort_rule this w = Inr (final, w')"
  shows "\<exists>this' b. transform_back this = Some this'
      \<and> Base_sort_ritzpair sort_rule (Base this') w = Inr (b, w')
      \<and> final = this'\<lparr>Base := b\<rparr>"
  using assms
  by (auto simp add: sort_ritzpair_def split: option.splits dest: via_Base_InrD)

lemma sort_ritzpair_InlD:
  assumes "sort_ritzpair Base_sort_ritzpair sort_rule this w = Inl (e, final, w')"
  shows "(transform_back this = None \<and> e = Assertion_failed \<and> final = this \<and> w' = w)
      \<or> (\<exists>this' b. transform_back this = Some this'
            \<and> Base_sort_ritzpair sort_rule (Base this') w = Inl (e, b, w')
            \<and> final = this'\<lparr>Base := b\<rparr>)"
  using assms
  by (auto simp add: sort_ritzpair_def split: option.splits dest: via_Base_InlD)

lemma sort_ritzpair_returns:
  assumes "transform_back this = Some this'"
    and "Base_sort_ritzpair sort_rule (Base this') w = Inr (b, w')"
  shows "sort_ritzpair Base_sort_ritzpair sort_rule this w = Inr (this'\<lparr>Base := b\<rparr>, w')"
  using assms by (simp add: sort_ritzpair_def via_Base_def)

lemma sort_ritzpair_throws:
  assumes "transform_back this = Some this'"
    and "Base_sort_ritzpair sort_rule (Base this') w = Inl (e, b, w')"
  shows "sort_ritzpair Base_sort_ritzpair sort_rule this w = Inl (e, this'\<lparr>Base := b\<rparr>, w')"
  using assms by (simp add: sort_ritzpair_def via_Base_def)

lemma transform_back_keeps:
  assumes "transform_back this = Some this'"
  shows "m_nev (Base this') = m_nev (Base this) \<and> m_sigma this' = m_sigma this
    \<and> length (m_ritz_val (Base this')) = length (m_ritz_val (Base this))
    \<and> SymEigsBase.more (Base this') = SymEigsBase.more (Base this)"
  using transform_back_InrD [OF assms] by (auto intro: arg_cong)

lemma transform_back_head:
  assumes "transform_back this = Some this'"
  shows "take (nat (m_nev (Base this))) (m_ritz_val (Base this'))
      = map (\<lambda>nu. 1 / nu + m_sigma this) (take (nat (m_nev (Base this))) (m_ritz_val (Base this)))"
proof -
  from transform_back_InrD [OF assms]
  have lo: "0 \<le> m_nev (Base this)"
    and hi: "m_nev (Base this) \<le> int (length (m_ritz_val (Base this)))"
    and eq: "this' = this\<lparr>Base := (Base this)\<lparr>m_ritz_val :=
      map (\<lambda>nu. 1 / nu + m_sigma this) (take (nat (m_nev (Base this))) (m_ritz_val (Base this)))
      @ drop (nat (m_nev (Base this))) (m_ritz_val (Base this))\<rparr>\<rparr>"
    by simp_all
  have "nat (m_nev (Base this)) \<le> length (m_ritz_val (Base this))"
    using lo hi by simp
  then show ?thesis
    unfolding eq by simp
qed

section \<open>The inversion of the Ritz values\<close>

text \<open>
  C1. When \<^verbatim>\<open>head(m_nev)\<close> is in range, the override rewrites each of the first \<open>m_nev\<close> Ritz
  values \<open>\<nu>\<close> to \<open>1 / \<nu> + \<sigma>\<close>, computed with the division and addition of the Scalar type
  itself, and hands the rewritten object to the Base class's sort. The converged Ritz values
  the solver reports are among these first \<open>m_nev\<close> entries.
\<close>

theorem sort_ritzpair_inverts:
  assumes "0 \<le> m_nev (Base this)"
    and "m_nev (Base this) \<le> int (length (m_ritz_val (Base this)))"
  shows "\<exists>this'. transform_back this = Some this'
      \<and> (\<forall>i < nat (m_nev (Base this)).
            m_ritz_val (Base this') ! i = 1 / (m_ritz_val (Base this) ! i) + m_sigma this)
      \<and> sort_ritzpair Base_sort_ritzpair sort_rule this w
          = via_Base (Base_sort_ritzpair sort_rule) this' w"
proof -
  let ?n = "nat (m_nev (Base this))"
  let ?v = "m_ritz_val (Base this)"
  let ?this' = "this\<lparr>Base := (Base this)\<lparr>m_ritz_val :=
      map (\<lambda>nu. 1 / nu + m_sigma this) (take ?n ?v) @ drop ?n ?v\<rparr>\<rparr>"
  have tb: "transform_back this = Some ?this'"
    using assms by (rule transform_back_in_range)
  have n: "?n \<le> length ?v" using assms by simp
  have "\<forall>i < ?n. m_ritz_val (Base ?this') ! i = 1 / (?v ! i) + m_sigma this"
    using n by (simp add: head_block_nth)
  moreover have "sort_ritzpair Base_sort_ritzpair sort_rule this w
      = via_Base (Base_sort_ritzpair sort_rule) ?this' w"
    using tb by (rule sort_ritzpair_after_transform_back)
  ultimately show ?thesis using tb by blast
qed

theorem sort_ritzpair_inverts_witness:
  "0 \<le> m_nev (Base (scenario [- 2, 2, 1 / 2]))
   \<and> m_nev (Base (scenario [- 2, 2, 1 / 2])) \<le> int (length (m_ritz_val (Base (scenario [- 2, 2, 1 / 2]))))
   \<and> transform_back (scenario [- 2, 2, 1 / 2]) = Some (scenario [2, 3, 1 / 2])
   \<and> (\<exists>this'. transform_back (scenario [- 2, 2, 1 / 2]) = Some this'
        \<and> (\<forall>i < nat (m_nev (Base (scenario [- 2, 2, 1 / 2]))).
              m_ritz_val (Base this') ! i
                = 1 / (m_ritz_val (Base (scenario [- 2, 2, 1 / 2])) ! i) + m_sigma (scenario [- 2, 2, 1 / 2]))
        \<and> sort_ritzpair stub_Base_sort_ritzpair LargestMagn (scenario [- 2, 2, 1 / 2]) ()
            = via_Base (stub_Base_sort_ritzpair LargestMagn) this' ())"
  using sort_ritzpair_inverts [of "scenario [- 2, 2, 1 / 2]" stub_Base_sort_ritzpair LargestMagn "()"]
  by (simp add: scenario_def transform_back_def)

section \<open>The order of the two steps\<close>








section \<open>A zero Ritz value\<close>

lemmas ieee_arith = plus_ieee_def divide_ieee_def one_ieee_def zero_ieee_def is_zero_def
  inf_of_def zero_of_def

lemma one_over_zero:
  assumes "is_zero nu"
  shows "1 / nu = (if nu = MinusZero then MinusInf else PlusInf)"
  using assms by (auto simp add: ieee_arith)

lemma infinity_plus:
  assumes "x = PlusInf \<or> x = MinusInf"
  shows "\<not> is_finite (x + sigma)" and "is_finite sigma \<Longrightarrow> x + sigma = x"
  using assms by (cases sigma; auto simp add: ieee_arith)+

text \<open>
  C3. The inversion has no guard for a Ritz value equal to zero. Over the Scalar with
  infinities: with a zero (of either sign) among the first \<open>m_nev\<close> entries the rewrite still
  succeeds, and the entry becomes \<open>1 / 0 + \<sigma>\<close>, which is not finite whatever the shift is:
  an infinity when the shift is finite. The override goes on to the Base class's sort and
  its outcome is that sort's: when the sort returns, the override returns its result, and a
  sort that only reorders the first \<open>m_nev\<close> values returns the non-finite value among them;
  when the sort throws, the override throws the same and the object keeps the rewritten
  buffer. This layer raises nothing of its own and restores nothing.
\<close>

theorem sort_ritzpair_zero_unguarded:
  fixes this :: "(ieee, 'z) SymGEigsShiftSolver"
  assumes "0 \<le> m_nev (Base this)"
    and "m_nev (Base this) \<le> int (length (m_ritz_val (Base this)))"
    and "i < nat (m_nev (Base this))"
    and "is_zero (m_ritz_val (Base this) ! i)"
  shows "\<exists>this'. transform_back this = Some this'
      \<and> m_ritz_val (Base this') ! i = 1 / (m_ritz_val (Base this) ! i) + m_sigma this
      \<and> \<not> is_finite (m_ritz_val (Base this') ! i)
      \<and> (is_finite (m_sigma this) \<longrightarrow>
            m_ritz_val (Base this') ! i
              = (if m_ritz_val (Base this) ! i = MinusZero then MinusInf else PlusInf))
      \<and> (\<forall>b w'. Base_sort_ritzpair sort_rule (Base this') w = Inr (b, w') \<longrightarrow>
            sort_ritzpair Base_sort_ritzpair sort_rule this w = Inr (this'\<lparr>Base := b\<rparr>, w'))
      \<and> (\<forall>b w'. Base_sort_ritzpair sort_rule (Base this') w = Inr (b, w')
              \<and> mset (take (nat (m_nev (Base this))) (m_ritz_val b))
                  = mset (take (nat (m_nev (Base this))) (m_ritz_val (Base this'))) \<longrightarrow>
            (\<exists>x \<in> set (take (nat (m_nev (Base this))) (m_ritz_val b)). \<not> is_finite x))
      \<and> (\<forall>e b w'. Base_sort_ritzpair sort_rule (Base this') w = Inl (e, b, w') \<longrightarrow>
            sort_ritzpair Base_sort_ritzpair sort_rule this w = Inl (e, this'\<lparr>Base := b\<rparr>, w'))"
proof -
  let ?n = "nat (m_nev (Base this))"
  let ?v = "m_ritz_val (Base this)"
  let ?this' = "this\<lparr>Base := (Base this)\<lparr>m_ritz_val :=
      map (\<lambda>nu. 1 / nu + m_sigma this) (take ?n ?v) @ drop ?n ?v\<rparr>\<rparr>"
  let ?x = "m_ritz_val (Base ?this') ! i"
  have tb: "transform_back this = Some ?this'"
    using assms(1,2) by (rule transform_back_in_range)
  have n: "?n \<le> length ?v" using assms(1,2) by simp
  have entry: "?x = 1 / (?v ! i) + m_sigma this"
    using assms(3) n by (simp add: head_block_nth)
  have inf: "1 / (?v ! i) = (if ?v ! i = MinusZero then MinusInf else PlusInf)"
    using assms(4) by (rule one_over_zero)
  then have inf': "1 / (?v ! i) = PlusInf \<or> 1 / (?v ! i) = MinusInf"
    by simp
  have nonfinite: "\<not> is_finite ?x"
    unfolding entry using inf' by (rule infinity_plus(1))
  have infinite: "is_finite (m_sigma this) \<longrightarrow>
      ?x = (if ?v ! i = MinusZero then MinusInf else PlusInf)"
    unfolding entry using infinity_plus(2) [OF inf'] inf by simp
  have returns: "\<forall>b w'. Base_sort_ritzpair sort_rule (Base ?this') w = Inr (b, w') \<longrightarrow>
      sort_ritzpair Base_sort_ritzpair sort_rule this w = Inr (?this'\<lparr>Base := b\<rparr>, w')"
    using tb by (blast intro: sort_ritzpair_returns)
  have throws: "\<forall>e b w'. Base_sort_ritzpair sort_rule (Base ?this') w = Inl (e, b, w') \<longrightarrow>
      sort_ritzpair Base_sort_ritzpair sort_rule this w = Inl (e, ?this'\<lparr>Base := b\<rparr>, w')"
    using tb by (blast intro: sort_ritzpair_throws)
  have "i < length (take ?n (m_ritz_val (Base ?this')))"
    using assms(3) n by simp
  then have "take ?n (m_ritz_val (Base ?this')) ! i \<in> set (take ?n (m_ritz_val (Base ?this')))"
    by (rule nth_mem)
  moreover have "take ?n (m_ritz_val (Base ?this')) ! i = ?x"
    using assms(3) by (rule nth_take)
  ultimately have among: "?x \<in> set (take ?n (m_ritz_val (Base ?this')))"
    by (simp only:)
  have kept: "\<exists>x \<in> set (take ?n (m_ritz_val b)). \<not> is_finite x"
    if "mset (take ?n (m_ritz_val b)) = mset (take ?n (m_ritz_val (Base ?this')))" for b
  proof -
    from that have "set (take ?n (m_ritz_val b)) = set (take ?n (m_ritz_val (Base ?this')))"
      by (rule mset_eq_setD)
    with among nonfinite show ?thesis by blast
  qed
  from tb entry nonfinite infinite returns throws kept show ?thesis by blast
qed

theorem sort_ritzpair_zero_unguarded_witness:
  "0 \<le> m_nev (Base (scenario_ieee [0, Finite 2, Finite (1 / 2)]))
   \<and> m_nev (Base (scenario_ieee [0, Finite 2, Finite (1 / 2)]))
       \<le> int (length (m_ritz_val (Base (scenario_ieee [0, Finite 2, Finite (1 / 2)]))))
   \<and> 0 < nat (m_nev (Base (scenario_ieee [0, Finite 2, Finite (1 / 2)])))
   \<and> is_zero (m_ritz_val (Base (scenario_ieee [0, Finite 2, Finite (1 / 2)])) ! 0)
   \<and> is_finite (m_sigma (scenario_ieee [0, Finite 2, Finite (1 / 2)]))
   \<and> transform_back (scenario_ieee [0, Finite 2, Finite (1 / 2)])
       = Some (scenario_ieee [PlusInf, Finite 3, Finite (1 / 2)])
   \<and> \<not> is_finite (m_ritz_val (Base (scenario_ieee [PlusInf, Finite 3, Finite (1 / 2)])) ! 0)
   \<and> stub_Base_sort_ieee LargestMagn (Base (scenario_ieee [PlusInf, Finite 3, Finite (1 / 2)])) ()
       = Inr (Base (scenario_ieee [PlusInf, Finite 3, Finite (1 / 2)]), ())
   \<and> sort_ritzpair stub_Base_sort_ieee LargestMagn (scenario_ieee [0, Finite 2, Finite (1 / 2)]) ()
       = Inr (scenario_ieee [PlusInf, Finite 3, Finite (1 / 2)], ())
   \<and> (\<exists>x \<in> set (take 2 [PlusInf, Finite 3, Finite (1 / 2)]). \<not> is_finite x)
   \<and> stub_Base_sort_rejects LargestMagn (Base (scenario_ieee [PlusInf, Finite 3, Finite (1 / 2)])) ()
       = Inl (Thrown (), Base (scenario_ieee [PlusInf, Finite 3, Finite (1 / 2)]), ())
   \<and> sort_ritzpair stub_Base_sort_rejects LargestMagn (scenario_ieee [0, Finite 2, Finite (1 / 2)]) ()
       = Inl (Thrown (), scenario_ieee [PlusInf, Finite 3, Finite (1 / 2)], ())"
  using sort_ritzpair_zero_unguarded
    [of "scenario_ieee [0, Finite 2, Finite (1 / 2)]" 0 stub_Base_sort_ieee LargestMagn "()"]
    sort_ritzpair_zero_unguarded
    [of "scenario_ieee [0, Finite 2, Finite (1 / 2)]" 0 stub_Base_sort_rejects LargestMagn "()"]
  by (simp add: scenario_ieee_def transform_back_def stub_Base_sort_ieee_def
        stub_Base_sort_rejects_def sort_before_def ieee_arith)

section \<open>What the rewrite leaves alone\<close>

text \<open>
  C6. The rewrite changes the first \<open>m_nev\<close> entries of the Ritz-value buffer and nothing else:
  the buffer keeps its length, each entry at an index from \<open>m_nev\<close> on keeps its value,
  \<open>m_nev\<close>, the other members of the Base solver and \<open>m_sigma\<close> keep theirs. The Base
  class's sort then runs on the Base subobject that holds this buffer, and what it returns or
  throws, with the Base subobject as it leaves it, is the outcome of the override.
\<close>

theorem sort_ritzpair_frame:
  assumes "0 \<le> m_nev (Base this)"
    and "m_nev (Base this) \<le> int (length (m_ritz_val (Base this)))"
  shows "\<exists>this'. transform_back this = Some this'
      \<and> length (m_ritz_val (Base this')) = length (m_ritz_val (Base this))
      \<and> (\<forall>i. nat (m_nev (Base this)) \<le> i \<and> i < length (m_ritz_val (Base this)) \<longrightarrow>
            m_ritz_val (Base this') ! i = m_ritz_val (Base this) ! i)
      \<and> m_nev (Base this') = m_nev (Base this)
      \<and> SymEigsBase.more (Base this') = SymEigsBase.more (Base this)
      \<and> m_sigma this' = m_sigma this
      \<and> sort_ritzpair Base_sort_ritzpair sort_rule this w
          = via_Base (Base_sort_ritzpair sort_rule) this' w
      \<and> sort_ritzpair Base_sort_ritzpair sort_rule this w
          = (case Base_sort_ritzpair sort_rule (Base this') w of
               Inl (e, b, w') \<Rightarrow> Inl (e, this'\<lparr>Base := b\<rparr>, w')
             | Inr (b, w') \<Rightarrow> Inr (this'\<lparr>Base := b\<rparr>, w'))"
proof -
  let ?n = "nat (m_nev (Base this))"
  let ?v = "m_ritz_val (Base this)"
  let ?this' = "this\<lparr>Base := (Base this)\<lparr>m_ritz_val :=
      map (\<lambda>nu. 1 / nu + m_sigma this) (take ?n ?v) @ drop ?n ?v\<rparr>\<rparr>"
  have tb: "transform_back this = Some ?this'"
    using assms by (rule transform_back_in_range)
  have n: "?n \<le> length ?v" using assms by simp
  have len: "length (m_ritz_val (Base ?this')) = length ?v"
    by simp
  have rest: "\<forall>i. ?n \<le> i \<and> i < length ?v \<longrightarrow> m_ritz_val (Base ?this') ! i = ?v ! i"
    using n by (simp add: tail_block_nth)
  have others: "m_nev (Base ?this') = m_nev (Base this)
      \<and> SymEigsBase.more (Base ?this') = SymEigsBase.more (Base this)
      \<and> m_sigma ?this' = m_sigma this"
    by simp
  have run: "sort_ritzpair Base_sort_ritzpair sort_rule this w
      = via_Base (Base_sort_ritzpair sort_rule) ?this' w"
    using tb by (rule sort_ritzpair_after_transform_back)
  have call: "sort_ritzpair Base_sort_ritzpair sort_rule this w
      = (case Base_sort_ritzpair sort_rule (Base ?this') w of
           Inl (e, b, w') \<Rightarrow> Inl (e, ?this'\<lparr>Base := b\<rparr>, w')
         | Inr (b, w') \<Rightarrow> Inr (?this'\<lparr>Base := b\<rparr>, w'))"
    unfolding run by (simp only: via_Base_def)
  from tb len rest others run call show ?thesis by blast
qed

theorem sort_ritzpair_frame_witness:
  "0 \<le> m_nev (Base (scenario [- 2, 2, 1 / 2, 7]))
   \<and> m_nev (Base (scenario [- 2, 2, 1 / 2, 7]))
       \<le> int (length (m_ritz_val (Base (scenario [- 2, 2, 1 / 2, 7]))))
   \<and> transform_back (scenario [- 2, 2, 1 / 2, 7]) = Some (scenario [2, 3, 1 / 2, 7])
   \<and> (\<exists>this'. transform_back (scenario [- 2, 2, 1 / 2, 7]) = Some this'
        \<and> length (m_ritz_val (Base this')) = 4
        \<and> (\<forall>i. 2 \<le> i \<and> i < 4 \<longrightarrow> m_ritz_val (Base this') ! i = [- 2, 2, 1 / 2, 7] ! i)
        \<and> m_nev (Base this') = 2
        \<and> m_sigma this' = 5 / 2
        \<and> sort_ritzpair stub_Base_sort_ritzpair SmallestAlge (scenario [- 2, 2, 1 / 2, 7]) ()
            = via_Base (stub_Base_sort_ritzpair SmallestAlge) this' ())
   \<and> stub_Base_sort_ritzpair SmallestAlge (Base (scenario [2, 3, 1 / 2, 7])) ()
       = Inr (Base (scenario [2, 3, 1 / 2, 7]), ())
   \<and> sort_ritzpair stub_Base_sort_ritzpair SmallestAlge (scenario [- 2, 2, 1 / 2, 7]) ()
       = Inr (scenario [2, 3, 1 / 2, 7], ())
   \<and> stub_Base_sort_rejects SmallestAlge (Base (scenario [2, 3, 1 / 2, 7])) ()
       = Inl (Thrown (), Base (scenario [2, 3, 1 / 2, 7]), ())
   \<and> sort_ritzpair stub_Base_sort_rejects SmallestAlge (scenario [- 2, 2, 1 / 2, 7]) ()
       = Inl (Thrown (), scenario [2, 3, 1 / 2, 7], ())"
  using sort_ritzpair_frame
    [of "scenario [- 2, 2, 1 / 2, 7]" stub_Base_sort_ritzpair SmallestAlge "()"]
    sort_ritzpair_frame
    [of "scenario [- 2, 2, 1 / 2, 7]" stub_Base_sort_rejects SmallestAlge "()"]
  by (simp add: scenario_def transform_back_def stub_Base_sort_ritzpair_def
        stub_Base_sort_rejects_def via_Base_def)

section \<open>Repeating the override\<close>

lemma take_reordered_head:
  "length ys = length (take n v) \<Longrightarrow> take n (ys @ drop n v) = ys"
  by (cases "n \<le> length v") simp_all

lemma stub_Base_sort_ritzpair_reorders:
  assumes "stub_Base_sort_ritzpair sort_rule b st = Inr (b', st')"
  shows "m_nev b' = m_nev b
    \<and> mset (take (nat (m_nev b)) (m_ritz_val b')) = mset (take (nat (m_nev b)) (m_ritz_val b))"
proof -
  let ?n = "nat (m_nev b)"
  let ?ys = "case sort_rule of
      LargestMagn \<Rightarrow> rev (sort_key abs (take ?n (m_ritz_val b)))
    | SmallestAlge \<Rightarrow> sort (take ?n (m_ritz_val b))"
  from assms have b': "b' = b\<lparr>m_ritz_val := ?ys @ drop ?n (m_ritz_val b)\<rparr>"
    by (auto simp add: stub_Base_sort_ritzpair_def Let_def)
  have len: "length ?ys = length (take ?n (m_ritz_val b))"
    by (cases sort_rule) simp_all
  have vals: "mset ?ys = mset (take ?n (m_ritz_val b))"
    by (cases sort_rule) simp_all
  have buf: "m_ritz_val b' = ?ys @ drop ?n (m_ritz_val b)"
    unfolding b' by simp
  have "take ?n (?ys @ drop ?n (m_ritz_val b)) = ?ys"
    using len by (rule take_reordered_head)
  then have "take ?n (m_ritz_val b') = ?ys"
    unfolding buf .
  then have "mset (take ?n (m_ritz_val b')) = mset (take ?n (m_ritz_val b))"
    using vals by (simp only:)
  moreover have "m_nev b' = m_nev b"
    unfolding b' by simp
  ultimately show ?thesis by (rule conjI [rotated])
qed

lemma transform_back_twice:
  assumes "transform_back this = Some once"
    and "i < nat (m_nev (Base this))"
    and "1 / (1 / (m_ritz_val (Base this) ! i) + m_sigma this) + m_sigma this
          \<noteq> 1 / (m_ritz_val (Base this) ! i) + m_sigma this"
  shows "\<exists>twice. transform_back once = Some twice
      \<and> m_ritz_val (Base once) ! i = 1 / (m_ritz_val (Base this) ! i) + m_sigma this
      \<and> m_ritz_val (Base twice) ! i
          = 1 / (1 / (m_ritz_val (Base this) ! i) + m_sigma this) + m_sigma this
      \<and> twice \<noteq> once"
proof -
  let ?n = "nat (m_nev (Base this))"
  let ?v = "m_ritz_val (Base this)"
  let ?f = "\<lambda>nu. 1 / nu + m_sigma this"
  let ?once = "this\<lparr>Base := (Base this)\<lparr>m_ritz_val := map ?f (take ?n ?v) @ drop ?n ?v\<rparr>\<rparr>"
  let ?u = "m_ritz_val (Base ?once)"
  let ?twice = "?once\<lparr>Base := (Base ?once)\<lparr>m_ritz_val := map ?f (take ?n ?u) @ drop ?n ?u\<rparr>\<rparr>"
  from transform_back_InrD [OF assms(1)]
  have lo: "0 \<le> m_nev (Base this)"
    and hi: "m_nev (Base this) \<le> int (length (m_ritz_val (Base this)))"
    and once: "once = ?once"
    by simp_all
  have n: "?n \<le> length ?v" using lo hi by simp
  have "transform_back ?once = Some (?once\<lparr>Base := (Base ?once)\<lparr>m_ritz_val :=
      map (\<lambda>nu. 1 / nu + m_sigma ?once) (take (nat (m_nev (Base ?once))) ?u)
      @ drop (nat (m_nev (Base ?once))) ?u\<rparr>\<rparr>)"
    using lo hi by (intro transform_back_in_range) simp_all
  then have tb2: "transform_back ?once = Some ?twice"
    by simp
  have e1: "?u ! i = ?f (?v ! i)"
    using assms(2) n by (simp add: head_block_nth)
  have "m_ritz_val (Base ?twice) ! i = ?f (?u ! i)"
    using assms(2) n by (simp add: head_block_nth)
  then have e2: "m_ritz_val (Base ?twice) ! i = ?f (?f (?v ! i))"
    using e1 by simp
  have differ: "m_ritz_val (Base ?twice) ! i \<noteq> ?u ! i"
    unfolding e1 e2 using assms(3) .
  have ne: "?twice \<noteq> ?once"
  proof
    assume "?twice = ?once"
    then have "m_ritz_val (Base ?twice) ! i = ?u ! i"
      by (rule arg_cong [where f = "\<lambda>s. m_ritz_val (Base s) ! i"])
    with differ show False by (rule notE)
  qed
  from tb2 e1 e2 ne show ?thesis unfolding once by blast
qed

text \<open>
  C10. Neither the rewrite nor the override is idempotent.
  \<^item> The rewrite: if an entry \<open>\<nu>\<close> among the first \<open>m_nev\<close> has
    \<open>1 / (1 / \<nu> + \<sigma>) + \<sigma> \<noteq> 1 / \<nu> + \<sigma>\<close>, then rewriting the rewritten object succeeds again
    and gives a different object: the entry that held \<open>1 / \<nu> + \<sigma>\<close> now holds
    \<open>1 / (1 / \<nu> + \<sigma>) + \<sigma>\<close>.
  \<^item> The override, as a repeated \<^verbatim>\<open>compute\<close> would call it: the second call rewrites the
    values the Base class's sort returned from the first, eigenvalues already, as if they were
    transformed values, and sorts them again. With a Base sort that reorders the first
    \<open>m_nev\<close> values, the eigenvalues after the second call are the images \<open>1 / \<lambda> + \<sigma>\<close> of the
    eigenvalues \<open>\<lambda>\<close> after the first, and where these images are not the same values again,
    the second call has changed the eigenvalues the solver reports.
\<close>

theorem sort_ritzpair_not_idempotent:
  assumes "sort_ritzpair Base_sort_ritzpair sort_rule this w = Inr (once, w1)"
    and "sort_ritzpair Base_sort_ritzpair sort_rule' once w1' = Inr (twice, w2)"
    and "\<forall>r b st b' st'. Base_sort_ritzpair r b st = Inr (b', st') \<longrightarrow>
            m_nev b' = m_nev b
            \<and> mset (take (nat (m_nev b)) (m_ritz_val b')) = mset (take (nat (m_nev b)) (m_ritz_val b))"
    and "image_mset (\<lambda>x. 1 / x + m_sigma this)
            (mset (take (nat (m_nev (Base this))) (m_ritz_val (Base once))))
          \<noteq> mset (take (nat (m_nev (Base this))) (m_ritz_val (Base once)))"
  shows "(\<exists>again. transform_back once = Some again
            \<and> (\<forall>j < nat (m_nev (Base this)).
                  m_ritz_val (Base again) ! j = 1 / (m_ritz_val (Base once) ! j) + m_sigma this)
            \<and> Base_sort_ritzpair sort_rule' (Base again) w1' = Inr (Base twice, w2))
      \<and> mset (take (nat (m_nev (Base this))) (m_ritz_val (Base twice)))
          = image_mset (\<lambda>x. 1 / x + m_sigma this)
              (mset (take (nat (m_nev (Base this))) (m_ritz_val (Base once))))
      \<and> mset (take (nat (m_nev (Base this))) (m_ritz_val (Base twice)))
          \<noteq> mset (take (nat (m_nev (Base this))) (m_ritz_val (Base once)))
      \<and> take (nat (m_nev (Base this))) (m_ritz_val (Base twice))
          \<noteq> take (nat (m_nev (Base this))) (m_ritz_val (Base once))
      \<and> twice \<noteq> once
      \<and> (\<forall>i rewritten.
            i < nat (m_nev (Base this)) \<and> transform_back this = Some rewritten
            \<and> 1 / (1 / (m_ritz_val (Base this) ! i) + m_sigma this) + m_sigma this
                \<noteq> 1 / (m_ritz_val (Base this) ! i) + m_sigma this \<longrightarrow>
            (\<exists>rewritten'. transform_back rewritten = Some rewritten'
               \<and> m_ritz_val (Base rewritten') ! i
                   = 1 / (1 / (m_ritz_val (Base this) ! i) + m_sigma this) + m_sigma this
               \<and> rewritten' \<noteq> rewritten))"
proof -
  let ?n = "nat (m_nev (Base this))"
  let ?f = "\<lambda>x. 1 / x + m_sigma this"
  from sort_ritzpair_InrD [OF assms(1)] obtain t1 b1 where
    t1: "transform_back this = Some t1"
    and b1: "Base_sort_ritzpair sort_rule (Base t1) w = Inr (b1, w1)"
    and once: "once = t1\<lparr>Base := b1\<rparr>"
    by blast
  from sort_ritzpair_InrD [OF assms(2)] obtain again b2 where
    again: "transform_back once = Some again"
    and b2: "Base_sort_ritzpair sort_rule' (Base again) w1' = Inr (b2, w2)"
    and twice: "twice = again\<lparr>Base := b2\<rparr>"
    by blast
  have keep1: "m_nev (Base t1) = m_nev (Base this)" "m_sigma t1 = m_sigma this"
    using transform_back_keeps [OF t1] by simp_all
  have "m_nev b1 = m_nev (Base t1)"
    using assms(3) b1 by blast
  then have nev_once: "m_nev (Base once) = m_nev (Base this)"
    using keep1 once by simp
  have sigma_once: "m_sigma once = m_sigma this"
    using keep1 once by simp
  have nev_again: "m_nev (Base again) = m_nev (Base this)"
    using transform_back_keeps [OF again] nev_once by simp
  have head: "take ?n (m_ritz_val (Base again)) = map ?f (take ?n (m_ritz_val (Base once)))"
    using transform_back_head [OF again] unfolding nev_once sigma_once .
  from transform_back_InrD [OF again]
  have "m_nev (Base once) \<le> int (length (m_ritz_val (Base once)))" "0 \<le> m_nev (Base once)"
    by simp_all
  then have n: "?n \<le> length (m_ritz_val (Base once))"
    unfolding nev_once by simp
  have entries: "\<forall>j < ?n. m_ritz_val (Base again) ! j = ?f (m_ritz_val (Base once) ! j)"
  proof (intro allI impI)
    fix j assume j: "j < ?n"
    have "m_ritz_val (Base again) ! j = take ?n (m_ritz_val (Base again)) ! j"
      using j by (rule nth_take [symmetric])
    also have "\<dots> = map ?f (take ?n (m_ritz_val (Base once))) ! j"
      unfolding head ..
    also have "\<dots> = ?f (m_ritz_val (Base once) ! j)"
      using j n by simp
    finally show "m_ritz_val (Base again) ! j = ?f (m_ritz_val (Base once) ! j)" .
  qed
  have base_twice: "Base twice = b2"
    using twice by simp
  have second_call: "\<exists>again. transform_back once = Some again
      \<and> (\<forall>j < ?n. m_ritz_val (Base again) ! j = ?f (m_ritz_val (Base once) ! j))
      \<and> Base_sort_ritzpair sort_rule' (Base again) w1' = Inr (Base twice, w2)"
    using again entries b2 unfolding base_twice by blast
  have "mset (take (nat (m_nev (Base again))) (m_ritz_val b2))
      = mset (take (nat (m_nev (Base again))) (m_ritz_val (Base again)))"
    using assms(3) b2 by blast
  then have "mset (take ?n (m_ritz_val (Base twice))) = mset (take ?n (m_ritz_val (Base again)))"
    unfolding nev_again base_twice .
  also have "\<dots> = image_mset ?f (mset (take ?n (m_ritz_val (Base once))))"
    unfolding head by simp
  finally have images: "mset (take ?n (m_ritz_val (Base twice)))
      = image_mset ?f (mset (take ?n (m_ritz_val (Base once))))" .
  have changed: "mset (take ?n (m_ritz_val (Base twice))) \<noteq> mset (take ?n (m_ritz_val (Base once)))"
    unfolding images using assms(4) .
  then have lists: "take ?n (m_ritz_val (Base twice)) \<noteq> take ?n (m_ritz_val (Base once))"
    by auto
  then have objects: "twice \<noteq> once"
    by auto
  have rewrite: "\<forall>i rewritten.
      i < ?n \<and> transform_back this = Some rewritten
      \<and> 1 / (1 / (m_ritz_val (Base this) ! i) + m_sigma this) + m_sigma this
          \<noteq> 1 / (m_ritz_val (Base this) ! i) + m_sigma this \<longrightarrow>
      (\<exists>rewritten'. transform_back rewritten = Some rewritten'
         \<and> m_ritz_val (Base rewritten') ! i
             = 1 / (1 / (m_ritz_val (Base this) ! i) + m_sigma this) + m_sigma this
         \<and> rewritten' \<noteq> rewritten)"
  proof (intro allI impI, elim conjE)
    fix i rewritten
    assume "i < ?n" and "transform_back this = Some rewritten"
      and "1 / (1 / (m_ritz_val (Base this) ! i) + m_sigma this) + m_sigma this
          \<noteq> 1 / (m_ritz_val (Base this) ! i) + m_sigma this"
    from transform_back_twice [OF this(2) this(1) this(3)]
    show "\<exists>rewritten'. transform_back rewritten = Some rewritten'
         \<and> m_ritz_val (Base rewritten') ! i
             = 1 / (1 / (m_ritz_val (Base this) ! i) + m_sigma this) + m_sigma this
         \<and> rewritten' \<noteq> rewritten"
      by blast
  qed
  from second_call images changed lists objects rewrite show ?thesis by blast
qed

theorem sort_ritzpair_not_idempotent_witness:
  "sort_ritzpair stub_Base_sort_ritzpair SmallestAlge (scenario [- 2, 2, 1 / 2]) ()
     = Inr (scenario [2, 3, 1 / 2], ())
   \<and> sort_ritzpair stub_Base_sort_ritzpair SmallestAlge (scenario [2, 3, 1 / 2]) ()
     = Inr (scenario [17 / 6, 3, 1 / 2], ())
   \<and> image_mset (\<lambda>x. 1 / x + m_sigma (scenario [- 2, 2, 1 / 2]))
        (mset (take (nat (m_nev (Base (scenario [- 2, 2, 1 / 2])))) (m_ritz_val (Base (scenario [2, 3, 1 / 2])))))
       \<noteq> mset (take (nat (m_nev (Base (scenario [- 2, 2, 1 / 2])))) (m_ritz_val (Base (scenario [2, 3, 1 / 2]))))
   \<and> transform_back (scenario [2, 3, 1 / 2]) = Some (scenario [3, 17 / 6, 1 / 2])
   \<and> take (nat (m_nev (Base (scenario [- 2, 2, 1 / 2])))) (m_ritz_val (Base (scenario [17 / 6, 3, 1 / 2])))
       \<noteq> take (nat (m_nev (Base (scenario [- 2, 2, 1 / 2])))) (m_ritz_val (Base (scenario [2, 3, 1 / 2])))
   \<and> scenario [17 / 6, 3, 1 / 2] \<noteq> scenario [2, 3, 1 / 2]
   \<and> 0 < nat (m_nev (Base (scenario [- 2, 2, 1 / 2])))
   \<and> transform_back (scenario [- 2, 2, 1 / 2]) = Some (scenario [2, 3, 1 / 2])
   \<and> 1 / (1 / (m_ritz_val (Base (scenario [- 2, 2, 1 / 2])) ! 0) + m_sigma (scenario [- 2, 2, 1 / 2]))
         + m_sigma (scenario [- 2, 2, 1 / 2])
       \<noteq> 1 / (m_ritz_val (Base (scenario [- 2, 2, 1 / 2])) ! 0) + m_sigma (scenario [- 2, 2, 1 / 2])"
proof -
  have first: "sort_ritzpair stub_Base_sort_ritzpair SmallestAlge (scenario [- 2, 2, 1 / 2]) ()
     = Inr (scenario [2, 3, 1 / 2], ())"
    by (simp add: scenario_def sort_ritzpair_def transform_back_def via_Base_def
          stub_Base_sort_ritzpair_def)
  have second: "sort_ritzpair stub_Base_sort_ritzpair SmallestAlge (scenario [2, 3, 1 / 2]) ()
     = Inr (scenario [17 / 6, 3, 1 / 2], ())"
    by (simp add: scenario_def sort_ritzpair_def transform_back_def via_Base_def
          stub_Base_sort_ritzpair_def)
  have reorders: "\<forall>r (b :: rat SymEigsBase) (st :: unit) b' st'.
      stub_Base_sort_ritzpair r b st = Inr (b', st') \<longrightarrow>
      m_nev b' = m_nev b
      \<and> mset (take (nat (m_nev b)) (m_ritz_val b')) = mset (take (nat (m_nev b)) (m_ritz_val b))"
    by (blast dest: stub_Base_sort_ritzpair_reorders)
  have moved: "image_mset (\<lambda>x. 1 / x + m_sigma (scenario [- 2, 2, 1 / 2]))
        (mset (take (nat (m_nev (Base (scenario [- 2, 2, 1 / 2])))) (m_ritz_val (Base (scenario [2, 3, 1 / 2])))))
       \<noteq> mset (take (nat (m_nev (Base (scenario [- 2, 2, 1 / 2])))) (m_ritz_val (Base (scenario [2, 3, 1 / 2]))))"
    by (simp add: scenario_def)
  have tbs: "transform_back (scenario [2, 3, 1 / 2]) = Some (scenario [3, 17 / 6, 1 / 2])"
    "transform_back (scenario [- 2, 2, 1 / 2]) = Some (scenario [2, 3, 1 / 2])"
    by (simp_all add: scenario_def transform_back_def)
  have entry: "0 < nat (m_nev (Base (scenario [- 2, 2, 1 / 2])))"
    "1 / (1 / (m_ritz_val (Base (scenario [- 2, 2, 1 / 2])) ! 0) + m_sigma (scenario [- 2, 2, 1 / 2]))
         + m_sigma (scenario [- 2, 2, 1 / 2])
       \<noteq> 1 / (m_ritz_val (Base (scenario [- 2, 2, 1 / 2])) ! 0) + m_sigma (scenario [- 2, 2, 1 / 2])"
    by (simp_all add: scenario_def)
  from sort_ritzpair_not_idempotent [OF first second reorders moved]
  have "take (nat (m_nev (Base (scenario [- 2, 2, 1 / 2])))) (m_ritz_val (Base (scenario [17 / 6, 3, 1 / 2])))
       \<noteq> take (nat (m_nev (Base (scenario [- 2, 2, 1 / 2])))) (m_ritz_val (Base (scenario [2, 3, 1 / 2])))
      \<and> scenario [17 / 6, 3, 1 / 2] \<noteq> scenario [2, 3, 1 / 2]"
    by blast
  with first second moved tbs entry show ?thesis by blast
qed

section \<open>Facts about the constructor\<close>

lemma SymGEigsShiftInvertOp_ctor_InrD:
  assumes "SymGEigsShiftInvertOp_ctor Solve Mult = Inr T"
  shows "Solve_dimension Solve = Mult_dimension Mult
    \<and> T = \<lparr>Transformed_dimension = Solve_dimension Solve,
            Transformed = (\<lambda>w v. case Mult_Apply Mult v of
                                     Inl e \<Rightarrow> Inl e
                                   | Inr u \<Rightarrow> Solve_Apply Solve w u)\<rparr>"
  using assms by (auto simp add: SymGEigsShiftInvertOp_ctor_def split: if_splits)

lemma SymGEigsShiftSolver_ctor_InrD:
  assumes "SymGEigsShiftSolver_ctor Base_ctor op Bop nev ncv sigma w = Inr (this, w')"
  shows "\<exists>T b w1. SymGEigsShiftInvertOp_ctor op Bop = Inr T
      \<and> Base_ctor T Bop nev ncv w = Inr (b, w1)
      \<and> set_shift op sigma w1 = Inr w'
      \<and> this = \<lparr>Base = b, m_sigma = sigma\<rparr>"
  using assms
  by (auto simp add: SymGEigsShiftSolver_ctor_def split: sum.splits prod.splits)

section \<open>The composed operator\<close>

text \<open>
  C4. A successful construction has handed the Base solver the composed operator: its
  application to any vector is the \<open>Solve\<close> operator applied to the result of the \<open>Mult\<close>
  operator, a failure of \<open>Mult\<close> being passed on, and its dimension is the dimension of both
  sub-operators. The Base solver received it before the shift was set; it reads the \<open>Solve\<close>
  object at each application, so after the construction it applies the shifted \<open>Solve\<close>.
\<close>

theorem ctor_composes_operators:
  assumes "SymGEigsShiftSolver_ctor Base_ctor op Bop nev ncv sigma w = Inr (this, w')"
  shows "\<exists>T w1. SymGEigsShiftInvertOp_ctor op Bop = Inr T
      \<and> Base_ctor T Bop nev ncv w = Inr (Base this, w1)
      \<and> set_shift op sigma w1 = Inr w'
      \<and> (\<forall>st v. Transformed T st v =
            (case Mult_Apply Bop v of Inl e \<Rightarrow> Inl e | Inr u \<Rightarrow> Solve_Apply op st u))
      \<and> Transformed_dimension T = Solve_dimension op
      \<and> Transformed_dimension T = Mult_dimension Bop"
proof -
  from assms obtain T b w1 where
    T: "SymGEigsShiftInvertOp_ctor op Bop = Inr T"
    and b: "Base_ctor T Bop nev ncv w = Inr (b, w1)"
    and s: "set_shift op sigma w1 = Inr w'"
    and obj: "this = \<lparr>Base = b, m_sigma = sigma\<rparr>"
    by (blast dest: SymGEigsShiftSolver_ctor_InrD)
  from T have dims: "Solve_dimension op = Mult_dimension Bop"
    and T_eq: "T = \<lparr>Transformed_dimension = Solve_dimension op,
            Transformed = (\<lambda>w v. case Mult_Apply Bop v of
                                     Inl e \<Rightarrow> Inl e
                                   | Inr u \<Rightarrow> Solve_Apply op w u)\<rparr>"
    by (blast dest: SymGEigsShiftInvertOp_ctor_InrD)+
  have app: "\<forall>st v. Transformed T st v =
      (case Mult_Apply Bop v of Inl e \<Rightarrow> Inl e | Inr u \<Rightarrow> Solve_Apply op st u)"
    by (simp add: T_eq)
  have d1: "Transformed_dimension T = Solve_dimension op" by (simp add: T_eq)
  have d2: "Transformed_dimension T = Mult_dimension Bop" using d1 dims by simp
  have "Base_ctor T Bop nev ncv w = Inr (Base this, w1)" using b obj by simp
  with T s app d1 d2 show ?thesis by blast
qed

theorem ctor_composes_operators_witness:
  "SymGEigsShiftSolver_ctor (stub_Base_ctor [- 2, 2, 2 / 3]) (spy (stub_op [1, 2, 3, 4, 5])) (stub_Bop 5)
       2 3 (5 / 2) (None, [])
     = Inr (scenario [- 2, 2, 2 / 3], (Some (5 / 2), [Base_constructed 2 3, Shift_set (5 / 2)]))
   \<and> (\<exists>T w1. SymGEigsShiftInvertOp_ctor (spy (stub_op [1, 2, 3, 4, 5])) (stub_Bop 5) = Inr T
        \<and> stub_Base_ctor [- 2, 2, 2 / 3] T (stub_Bop 5) 2 3 (None, []) = Inr (Base (scenario [- 2, 2, 2 / 3]), w1)
        \<and> set_shift (spy (stub_op [1, 2, 3, 4, 5])) (5 / 2) w1 = Inr (Some (5 / 2), [Base_constructed 2 3, Shift_set (5 / 2)])
        \<and> Transformed T (None, [Base_constructed 2 3]) [1, 1, 1, 1, 1] = Inl (Thrown ())
        \<and> Transformed T (Some (5 / 2), [Base_constructed 2 3, Shift_set (5 / 2)]) [1, 1, 1, 1, 1]
            = Inr [- 2 / 3, - 2, 2, 2 / 3, 2 / 5]
        \<and> Transformed_dimension T = 5)"
proof -
  have run: "SymGEigsShiftSolver_ctor (stub_Base_ctor [- 2, 2, 2 / 3]) (spy (stub_op [1, 2, 3, 4, 5]))
       (stub_Bop 5) 2 3 (5 / 2) (None, [])
     = Inr (scenario [- 2, 2, 2 / 3], (Some (5 / 2), [Base_constructed 2 3, Shift_set (5 / 2)]))"
    by (simp add: SymGEigsShiftSolver_ctor_def SymGEigsShiftInvertOp_ctor_def stub_Base_ctor_def
          stub_op_def spy_def stub_Bop_def scenario_def)
  from ctor_composes_operators [OF run] obtain T w1 where
    T: "SymGEigsShiftInvertOp_ctor (spy (stub_op [1, 2, 3, 4, 5])) (stub_Bop 5) = Inr T"
    and b: "stub_Base_ctor [- 2, 2, 2 / 3] T (stub_Bop 5) 2 3 (None, []) = Inr (Base (scenario [- 2, 2, 2 / 3]), w1)"
    and s: "set_shift (spy (stub_op [1, 2, 3, 4, 5])) (5 / 2) w1 = Inr (Some (5 / 2), [Base_constructed 2 3, Shift_set (5 / 2)])"
    and app: "\<forall>st v. Transformed T st v =
      (case Mult_Apply (stub_Bop 5) v of Inl e \<Rightarrow> Inl e
       | Inr u \<Rightarrow> Solve_Apply (spy (stub_op [1, 2, 3, 4, 5])) st u)"
    and d: "Transformed_dimension T = Solve_dimension (spy (stub_op [1, 2, 3, 4, 5]))"
    by blast
  have "Transformed T (None, [Base_constructed 2 3]) [1, 1, 1, 1, 1] = Inl (Thrown ())"
    by (simp add: app stub_op_def spy_def stub_Bop_def)
  moreover have "Transformed T (Some (5 / 2), [Base_constructed 2 3, Shift_set (5 / 2)]) [1, 1, 1, 1, 1]
            = Inr [- 2 / 3, - 2, 2, 2 / 3, 2 / 5]"
    by (simp add: app stub_op_def spy_def stub_Bop_def)
  moreover have "Transformed_dimension T = 5"
    by (simp add: d stub_op_def spy_def)
  ultimately show ?thesis using run T b s by blast
qed

section \<open>The order of the construction\<close>

text \<open>
  C5. The constructor does not run in the order the specification lists. With a stub Base
  constructor that notes its call and a \<open>Solve\<close> operator that records its \<^verbatim>\<open>set_shift\<close>
  calls, the log of the constructor is: Base solver constructed, then shift set; the log of
  the construction in the specification's order is: shift set, then Base solver constructed.
\<close>

theorem ctor_order_counterexample:
  "SymGEigsShiftSolver_ctor (stub_Base_ctor [- 2, 2, 2 / 3]) (spy (stub_op [1, 2, 3, 4, 5])) (stub_Bop 5)
       2 3 (5 / 2) (None, [])
     = Inr (scenario [- 2, 2, 2 / 3], (Some (5 / 2), [Base_constructed 2 3, Shift_set (5 / 2)]))
   \<and> Construct_spec (stub_Base_ctor [- 2, 2, 2 / 3]) (spy (stub_op [1, 2, 3, 4, 5])) (stub_Bop 5)
       2 3 (5 / 2) (None, [])
     = Inr (scenario [- 2, 2, 2 / 3], (Some (5 / 2), [Shift_set (5 / 2), Base_constructed 2 3]))
   \<and> SymGEigsShiftSolver_ctor (stub_Base_ctor [- 2, 2, 2 / 3]) (spy (stub_op [1, 2, 3, 4, 5])) (stub_Bop 5)
       2 3 (5 / 2) (None, [])
     \<noteq> Construct_spec (stub_Base_ctor [- 2, 2, 2 / 3]) (spy (stub_op [1, 2, 3, 4, 5])) (stub_Bop 5)
       2 3 (5 / 2) (None, [])"
  by (simp add: SymGEigsShiftSolver_ctor_def Construct_spec_def SymGEigsShiftInvertOp_ctor_def
        stub_Base_ctor_def stub_op_def spy_def stub_Bop_def scenario_def)

text \<open>
  C5, amended. The constructor first builds the composed operator, then runs the Base
  constructor on the composed operator, \<open>Mult\<close>, \<open>nev\<close> and \<open>ncv\<close> (it checks neither \<open>nev\<close> nor
  \<open>ncv\<close> itself), then stores the shift and sets it in the \<open>Solve\<close> operator, in the state the
  Base constructor left. A failure of a step is the failure of the construction, and the later
  steps do not run: when the Base constructor fails, the outcome is its failure whatever
  \<^verbatim>\<open>set_shift\<close> would do.
\<close>

theorem ctor_order:
  "(\<forall>e. SymGEigsShiftInvertOp_ctor op Bop = Inl e \<longrightarrow>
        SymGEigsShiftSolver_ctor Base_ctor op Bop nev ncv sigma w = Inl e)
   \<and> (\<forall>T e. SymGEigsShiftInvertOp_ctor op Bop = Inr T \<and> Base_ctor T Bop nev ncv w = Inl e \<longrightarrow>
        SymGEigsShiftSolver_ctor Base_ctor op Bop nev ncv sigma w = Inl e)
   \<and> (\<forall>T b w1. SymGEigsShiftInvertOp_ctor op Bop = Inr T \<and> Base_ctor T Bop nev ncv w = Inr (b, w1) \<longrightarrow>
        SymGEigsShiftSolver_ctor Base_ctor op Bop nev ncv sigma w =
          (case set_shift op sigma w1 of
             Inl e \<Rightarrow> Inl e
           | Inr w2 \<Rightarrow> Inr (\<lparr>Base = b, m_sigma = sigma\<rparr>, w2)))"
proof (intro conjI allI impI)
  fix e
  assume "SymGEigsShiftInvertOp_ctor op Bop = Inl e"
  then show "SymGEigsShiftSolver_ctor Base_ctor op Bop nev ncv sigma w = Inl e"
    by (simp add: SymGEigsShiftSolver_ctor_def)
next
  fix T e
  assume "SymGEigsShiftInvertOp_ctor op Bop = Inr T \<and> Base_ctor T Bop nev ncv w = Inl e"
  then show "SymGEigsShiftSolver_ctor Base_ctor op Bop nev ncv sigma w = Inl e"
    by (simp add: SymGEigsShiftSolver_ctor_def)
next
  fix T b w1
  assume "SymGEigsShiftInvertOp_ctor op Bop = Inr T \<and> Base_ctor T Bop nev ncv w = Inr (b, w1)"
  then show "SymGEigsShiftSolver_ctor Base_ctor op Bop nev ncv sigma w =
      (case set_shift op sigma w1 of
         Inl e \<Rightarrow> Inl e
       | Inr w2 \<Rightarrow> Inr (\<lparr>Base = b, m_sigma = sigma\<rparr>, w2))"
    by (simp add: SymGEigsShiftSolver_ctor_def)
qed

theorem ctor_order_witness:
  "SymGEigsShiftInvertOp_ctor (spy (stub_op [1, 2, 3, 4, 5])) (stub_Bop 4) = Inl Configuration_error
   \<and> SymGEigsShiftSolver_ctor (stub_Base_ctor [- 2, 2, 2 / 3]) (spy (stub_op [1, 2, 3, 4, 5])) (stub_Bop 4)
        2 3 (5 / 2) (None, []) = Inl Configuration_error
   \<and> (\<exists>T. SymGEigsShiftInvertOp_ctor (spy (stub_op [1, 2, 3, 4, 5])) (stub_Bop 5) = Inr T
        \<and> stub_Base_ctor [- 2, 2, 2 / 3] T (stub_Bop 5) 3 3 (None, []) = Inl Configuration_error)
   \<and> SymGEigsShiftSolver_ctor (stub_Base_ctor [- 2, 2, 2 / 3]) (spy (stub_op [1, 2, 3, 4, 5])) (stub_Bop 5)
        3 3 (5 / 2) (None, []) = Inl Configuration_error
   \<and> (\<exists>T. SymGEigsShiftInvertOp_ctor (spy (stub_op [1, 2, 3, 4, 5])) (stub_Bop 5) = Inr T
        \<and> stub_Base_ctor [- 2, 2, 2 / 3] T (stub_Bop 5) 2 3 (None, [])
            = Inr (Base (scenario [- 2, 2, 2 / 3]), (None, [Base_constructed 2 3])))
   \<and> SymGEigsShiftSolver_ctor (stub_Base_ctor [- 2, 2, 2 / 3]) (spy (stub_op [1, 2, 3, 4, 5])) (stub_Bop 5)
        2 3 (5 / 2) (None, [])
       = Inr (scenario [- 2, 2, 2 / 3], (Some (5 / 2), [Base_constructed 2 3, Shift_set (5 / 2)]))
   \<and> SymGEigsShiftSolver_ctor (stub_Base_ctor [- 2, 2, 2 / 3]) (spy (stub_op [1, 2, 3, 4, 5])) (stub_Bop 5)
        2 3 3 (None, []) = Inl (Thrown ())"
  using ctor_order [of "spy (stub_op [1, 2, 3, 4, 5])" "stub_Bop 4" "stub_Base_ctor [- 2, 2, 2 / 3]" 2 3 "5 / 2" "(None, [])"]
    ctor_order [of "spy (stub_op [1, 2, 3, 4, 5])" "stub_Bop 5" "stub_Base_ctor [- 2, 2, 2 / 3]" 3 3 "5 / 2" "(None, [])"]
    ctor_order [of "spy (stub_op [1, 2, 3, 4, 5])" "stub_Bop 5" "stub_Base_ctor [- 2, 2, 2 / 3]" 2 3 "5 / 2" "(None, [])"]
    ctor_order [of "spy (stub_op [1, 2, 3, 4, 5])" "stub_Bop 5" "stub_Base_ctor [- 2, 2, 2 / 3]" 2 3 3 "(None, [])"]
  by (simp add: SymGEigsShiftInvertOp_ctor_def stub_Base_ctor_def stub_op_def spy_def stub_Bop_def
        scenario_def)

section \<open>Setting the shift\<close>

lemma shifts_of_append: "shifts_of (xs @ ys) = shifts_of xs @ shifts_of ys"
  by (induction xs rule: shifts_of.induct) simp_all

lemma set_shift_spy_InrD:
  assumes "set_shift (spy op) sigma st = Inr st'"
  shows "set_shift op sigma (fst st) = Inr (fst st') \<and> snd st' = snd st @ [Shift_set sigma]"
  using assms by (auto simp add: spy_def split: prod.splits sum.splits)

text \<open>
  C7. With the calls of \<^verbatim>\<open>set_shift\<close> recorded, and a Base class whose constructor and sort
  do not call it themselves: a successful construction adds exactly one call, with the shift
  of the constructor, and makes it as its last step, on the state the Base constructor left.
  The override adds none, whether the Base class's sort returns or throws, and neither does
  a member function inherited from the Base class that makes none itself. The constructor
  applies no operator: it hands the composed operator to the Base constructor, and when
  what the Base constructor does (whether it succeeds, the state it leaves the operators in,
  the members it sets) does not depend on what the operators do when applied, though it may
  keep the operator, neither does the construction.
\<close>

theorem set_shift_once_at_construction:
  assumes "SymGEigsShiftSolver_ctor Base_ctor (spy op) Bop nev ncv sigma (w, calls)
            = Inr (this, (w', calls'))"
    and "\<forall>T B n m st b st'. Base_ctor T B n m st = Inr (b, st') \<longrightarrow>
            shifts_of (snd st') = shifts_of (snd st)"
    and "\<forall>r b st b' st'. Base_sort_ritzpair r b st = Inr (b', st') \<longrightarrow>
            shifts_of (snd st') = shifts_of (snd st)"
  shows "shifts_of calls' = shifts_of calls @ [sigma]
      \<and> (\<exists>T b w1 calls1. SymGEigsShiftInvertOp_ctor (spy op) Bop = Inr T
            \<and> Base_ctor T Bop nev ncv (w, calls) = Inr (b, (w1, calls1))
            \<and> set_shift op sigma w1 = Inr w'
            \<and> calls' = calls1 @ [Shift_set sigma])
      \<and> (\<forall>r st final st'.
            sort_ritzpair Base_sort_ritzpair r this st = Inr (final, st') \<longrightarrow>
            shifts_of (snd st') = shifts_of (snd st))
      \<and> ((\<forall>r b st e b' st'. Base_sort_ritzpair r b st = Inl (e, b', st') \<longrightarrow>
              shifts_of (snd st') = shifts_of (snd st)) \<longrightarrow>
          (\<forall>r st e final st'.
              sort_ritzpair Base_sort_ritzpair r this st = Inl (e, final, st') \<longrightarrow>
              shifts_of (snd st') = shifts_of (snd st)))
      \<and> (\<forall>f. (\<forall>b st b' st'. f b st = Inr (b', st') \<longrightarrow> shifts_of (snd st') = shifts_of (snd st)) \<longrightarrow>
            (\<forall>st final st'. via_Base f this st = Inr (final, st') \<longrightarrow>
               shifts_of (snd st') = shifts_of (snd st)))
      \<and> ((\<forall>T T' B B' n m st b st'.
              Transformed_dimension T' = Transformed_dimension T \<and> Mult_dimension B' = Mult_dimension B
              \<and> Base_ctor T B n m st = Inr (b, st') \<longrightarrow>
              (\<exists>b'. Base_ctor T' B' n m st = Inr (b', st')
                 \<and> m_nev b' = m_nev b \<and> m_ritz_val b' = m_ritz_val b)) \<longrightarrow>
          (\<forall>g h. \<exists>this'.
              SymGEigsShiftSolver_ctor Base_ctor (spy (op\<lparr>Solve_Apply := g\<rparr>))
                  (Bop\<lparr>Mult_Apply := h\<rparr>) nev ncv sigma (w, calls)
                = Inr (this', (w', calls'))
              \<and> m_nev (Base this') = m_nev (Base this)
              \<and> m_ritz_val (Base this') = m_ritz_val (Base this)
              \<and> m_sigma this' = m_sigma this))"
proof -
  from assms(1) obtain T b st1 where
    T: "SymGEigsShiftInvertOp_ctor (spy op) Bop = Inr T"
    and b: "Base_ctor T Bop nev ncv (w, calls) = Inr (b, st1)"
    and s: "set_shift (spy op) sigma st1 = Inr (w', calls')"
    and obj: "this = \<lparr>Base = b, m_sigma = sigma\<rparr>"
    by (blast dest: SymGEigsShiftSolver_ctor_InrD)
  from set_shift_spy_InrD [OF s]
  have s1: "set_shift op sigma (fst st1) = Inr w'"
    and c1: "calls' = snd st1 @ [Shift_set sigma]"
    by simp_all
  from assms(2) b have "shifts_of (snd st1) = shifts_of (snd (w, calls))"
    by blast
  then have once: "shifts_of calls' = shifts_of calls @ [sigma]"
    by (simp add: c1 shifts_of_append)
  have b': "Base_ctor T Bop nev ncv (w, calls) = Inr (b, (fst st1, snd st1))"
    using b by simp
  from T b' s1 c1 have last:
    "\<exists>T b w1 calls1. SymGEigsShiftInvertOp_ctor (spy op) Bop = Inr T
        \<and> Base_ctor T Bop nev ncv (w, calls) = Inr (b, (w1, calls1))
        \<and> set_shift op sigma w1 = Inr w'
        \<and> calls' = calls1 @ [Shift_set sigma]"
    by blast
  have override: "\<forall>r st final st'.
      sort_ritzpair Base_sort_ritzpair r this st = Inr (final, st') \<longrightarrow>
      shifts_of (snd st') = shifts_of (snd st)"
    using assms(3) by (blast dest: sort_ritzpair_InrD)
  have override_throws: "shifts_of (snd st') = shifts_of (snd st)"
    if quiet: "\<forall>r b st e b' st'. Base_sort_ritzpair r b st = Inl (e, b', st') \<longrightarrow>
        shifts_of (snd st') = shifts_of (snd st)"
      and thrown: "sort_ritzpair Base_sort_ritzpair r this st = Inl (e, final, st')"
    for r st e final st'
    using sort_ritzpair_InlD [OF thrown] quiet by blast
  have inherited: "\<forall>f. (\<forall>b st b' st'. f b st = Inr (b', st') \<longrightarrow>
        shifts_of (snd st') = shifts_of (snd st)) \<longrightarrow>
      (\<forall>st final st'. via_Base f this st = Inr (final, st') \<longrightarrow>
         shifts_of (snd st') = shifts_of (snd st))"
    by (blast dest: via_Base_InrD)
  have unapplied: "\<exists>this'. SymGEigsShiftSolver_ctor Base_ctor (spy (op\<lparr>Solve_Apply := g\<rparr>))
        (Bop\<lparr>Mult_Apply := h\<rparr>) nev ncv sigma (w, calls) = Inr (this', (w', calls'))
      \<and> m_nev (Base this') = m_nev (Base this)
      \<and> m_ritz_val (Base this') = m_ritz_val (Base this)
      \<and> m_sigma this' = m_sigma this"
    if blind: "\<forall>T T' B B' n m st b st'.
        Transformed_dimension T' = Transformed_dimension T \<and> Mult_dimension B' = Mult_dimension B
        \<and> Base_ctor T B n m st = Inr (b, st') \<longrightarrow>
        (\<exists>b'. Base_ctor T' B' n m st = Inr (b', st')
           \<and> m_nev b' = m_nev b \<and> m_ritz_val b' = m_ritz_val b)"
    for g h
  proof -
    from T have dims: "Solve_dimension (spy op) = Mult_dimension Bop"
      and Td: "Transformed_dimension T = Solve_dimension (spy op)"
      by (auto dest: SymGEigsShiftInvertOp_ctor_InrD)
    obtain T' where T': "SymGEigsShiftInvertOp_ctor (spy (op\<lparr>Solve_Apply := g\<rparr>))
          (Bop\<lparr>Mult_Apply := h\<rparr>) = Inr T'"
      and Td': "Transformed_dimension T' = Transformed_dimension T"
      using dims Td by (simp add: SymGEigsShiftInvertOp_ctor_def spy_def)
    have Md: "Mult_dimension (Bop\<lparr>Mult_Apply := h\<rparr>) = Mult_dimension Bop"
      by simp
    from blind Td' Md b obtain b2 where
      b2: "Base_ctor T' (Bop\<lparr>Mult_Apply := h\<rparr>) nev ncv (w, calls) = Inr (b2, st1)"
      and same: "m_nev b2 = m_nev b" "m_ritz_val b2 = m_ritz_val b"
      by blast
    have "set_shift (spy (op\<lparr>Solve_Apply := g\<rparr>)) sigma st1 = set_shift (spy op) sigma st1"
      by (simp add: spy_def)
    then have s2: "set_shift (spy (op\<lparr>Solve_Apply := g\<rparr>)) sigma st1 = Inr (w', calls')"
      using s by simp
    have "SymGEigsShiftSolver_ctor Base_ctor (spy (op\<lparr>Solve_Apply := g\<rparr>))
        (Bop\<lparr>Mult_Apply := h\<rparr>) nev ncv sigma (w, calls)
        = Inr (\<lparr>Base = b2, m_sigma = sigma\<rparr>, (w', calls'))"
      by (simp add: SymGEigsShiftSolver_ctor_def T' b2 s2)
    moreover have "m_nev (Base \<lparr>Base = b2, m_sigma = sigma\<rparr>) = m_nev (Base this)"
      "m_ritz_val (Base \<lparr>Base = b2, m_sigma = sigma\<rparr>) = m_ritz_val (Base this)"
      "m_sigma \<lparr>Base = b2, m_sigma = sigma\<rparr> = m_sigma this"
      using same obj by simp_all
    ultimately show ?thesis by blast
  qed
  from once last override override_throws inherited unapplied show ?thesis by blast
qed

theorem set_shift_once_at_construction_witness:
  "(\<exists>this. SymGEigsShiftSolver_ctor (stub_Base_ctor_keeping [1 / 2, 2, - 2])
          (spy (stub_op [1, 2, 3, 4, 5])) (stub_Bop 5) 2 3 (5 / 2) (None, [])
        = Inr (this, (Some (5 / 2), [Base_constructed 2 3, Shift_set (5 / 2)]))
      \<and> m_nev (Base this) = 2 \<and> m_ritz_val (Base this) = [1 / 2, 2, - 2] \<and> m_sigma this = 5 / 2
      \<and> (\<exists>final. sort_ritzpair stub_Base_sort_ritzpair SmallestAlge this
              (Some (5 / 2 :: rat), [Base_constructed 2 3, Shift_set (5 / 2 :: rat)])
            = Inr (final, (Some (5 / 2), [Base_constructed 2 3, Shift_set (5 / 2)]))
          \<and> m_ritz_val (Base final) = [3, 9 / 2, - 2])
      \<and> (\<exists>final. sort_ritzpair stub_Base_sort_rejects SmallestAlge this
              (Some (5 / 2 :: rat), [Base_constructed 2 3, Shift_set (5 / 2 :: rat)])
            = Inl (Thrown (), final, (Some (5 / 2), [Base_constructed 2 3, Shift_set (5 / 2)])))
      \<and> (\<exists>final. via_Base (stub_Base_sort_ritzpair LargestMagn) this
              (Some (5 / 2 :: rat), [Base_constructed 2 3, Shift_set (5 / 2 :: rat)])
            = Inr (final, (Some (5 / 2), [Base_constructed 2 3, Shift_set (5 / 2)]))))
   \<and> shifts_of [Base_constructed 2 3, Shift_set (5 / 2 :: rat)] = shifts_of [] @ [5 / 2]
   \<and> (\<exists>this'. SymGEigsShiftSolver_ctor (stub_Base_ctor_keeping [1 / 2, 2, - 2])
          (spy ((stub_op [1, 2, 3, 4, 5])\<lparr>Solve_Apply := \<lambda>w v. Inl (Thrown ())\<rparr>))
          ((stub_Bop 5)\<lparr>Mult_Apply := \<lambda>v. Inl (Thrown ())\<rparr>) 2 3 (5 / 2) (None, [])
        = Inr (this', (Some (5 / 2), [Base_constructed 2 3, Shift_set (5 / 2)]))
      \<and> m_nev (Base this') = 2 \<and> m_ritz_val (Base this') = [1 / 2, 2, - 2] \<and> m_sigma this' = 5 / 2)"
proof -
  obtain this where run: "SymGEigsShiftSolver_ctor (stub_Base_ctor_keeping [1 / 2, 2, - 2])
       (spy (stub_op [1, 2, 3, 4, 5])) (stub_Bop 5) 2 3 (5 / 2) (None, [])
     = Inr (this, (Some (5 / 2), [Base_constructed 2 3, Shift_set (5 / 2)]))"
    and members: "m_nev (Base this) = 2" "m_ritz_val (Base this) = [1 / 2, 2, - 2]"
      "m_sigma this = 5 / 2"
    by (simp add: SymGEigsShiftSolver_ctor_def SymGEigsShiftInvertOp_ctor_def
          stub_Base_ctor_keeping_def stub_op_def spy_def stub_Bop_def)
  have quiet_ctor: "\<forall>T B n m (st :: rat option \<times> rat event list) b st'.
      stub_Base_ctor_keeping [1 / 2, 2, - 2] T B n m st = Inr (b, st') \<longrightarrow>
      shifts_of (snd st') = shifts_of (snd st)"
    by (auto simp add: stub_Base_ctor_keeping_def shifts_of_append split: if_splits)
  have quiet_sort: "\<forall>r (b :: (rat, (rat, rat option \<times> rat event list, unit) SymGEigsShiftInvertOp)
        SymEigsBase_scheme) (st :: rat option \<times> rat event list) b' st'.
      stub_Base_sort_ritzpair r b st = Inr (b', st') \<longrightarrow>
      shifts_of (snd st') = shifts_of (snd st)"
    by (auto simp add: stub_Base_sort_ritzpair_def Let_def)
  have quiet_rejects: "\<forall>(r :: SortRule) (b :: (rat, (rat, rat option \<times> rat event list, unit)
        SymGEigsShiftInvertOp) SymEigsBase_scheme) (st :: rat option \<times> rat event list) e b' st'.
      stub_Base_sort_rejects r b st = Inl (e, b', st') \<longrightarrow>
      shifts_of (snd st') = shifts_of (snd st)"
    by (auto simp add: stub_Base_sort_rejects_def)
  have never_returns: "\<forall>(r :: SortRule) (b :: (rat, (rat, rat option \<times> rat event list, unit)
        SymGEigsShiftInvertOp) SymEigsBase_scheme) (st :: rat option \<times> rat event list) b' st'.
      stub_Base_sort_rejects r b st = Inr (b', st') \<longrightarrow>
      shifts_of (snd st') = shifts_of (snd st)"
    by (simp add: stub_Base_sort_rejects_def)
  have blind: "\<forall>T T' B B' n m (st :: rat option \<times> rat event list) b st'.
      Transformed_dimension T' = Transformed_dimension T \<and> Mult_dimension B' = Mult_dimension B
      \<and> stub_Base_ctor_keeping [1 / 2, 2, - 2] T B n m st = Inr (b, st') \<longrightarrow>
      (\<exists>b'. stub_Base_ctor_keeping [1 / 2, 2, - 2] T' B' n m st = Inr (b', st')
         \<and> m_nev b' = m_nev b \<and> m_ritz_val b' = m_ritz_val b)"
    by (auto simp add: stub_Base_ctor_keeping_def split: if_splits)
  have srt: "\<exists>final. sort_ritzpair stub_Base_sort_ritzpair SmallestAlge this
        (Some (5 / 2 :: rat), [Base_constructed 2 3, Shift_set (5 / 2 :: rat)])
       = Inr (final, (Some (5 / 2), [Base_constructed 2 3, Shift_set (5 / 2)]))
      \<and> m_ritz_val (Base final) = [3, 9 / 2, - 2]"
    using members
    by (simp add: sort_ritzpair_def transform_back_def via_Base_def stub_Base_sort_ritzpair_def)
  have rej: "\<exists>final. sort_ritzpair stub_Base_sort_rejects SmallestAlge this
        (Some (5 / 2 :: rat), [Base_constructed 2 3, Shift_set (5 / 2 :: rat)])
       = Inl (Thrown (), final, (Some (5 / 2), [Base_constructed 2 3, Shift_set (5 / 2)]))"
    using members
    by (simp add: sort_ritzpair_def transform_back_def via_Base_def stub_Base_sort_rejects_def)
  have inh: "\<exists>final. via_Base (stub_Base_sort_ritzpair LargestMagn) this
        (Some (5 / 2 :: rat), [Base_constructed 2 3, Shift_set (5 / 2 :: rat)])
       = Inr (final, (Some (5 / 2), [Base_constructed 2 3, Shift_set (5 / 2)]))"
    by (simp add: via_Base_def stub_Base_sort_ritzpair_def Let_def)
  from set_shift_once_at_construction [OF run quiet_ctor quiet_sort]
  have once: "shifts_of [Base_constructed 2 3, Shift_set (5 / 2 :: rat)] = shifts_of [] @ [5 / 2]"
    by blast
  from set_shift_once_at_construction [OF run quiet_ctor never_returns] quiet_rejects
  have "\<forall>(r :: SortRule) (st :: rat option \<times> rat event list) e final st'.
      sort_ritzpair stub_Base_sort_rejects r this st = Inl (e, final, st') \<longrightarrow>
      shifts_of (snd st') = shifts_of (snd st)"
    by blast
  from set_shift_once_at_construction [OF run quiet_ctor quiet_sort] blind
  have "\<exists>this'. SymGEigsShiftSolver_ctor (stub_Base_ctor_keeping [1 / 2, 2, - 2])
          (spy ((stub_op [1, 2, 3, 4, 5])\<lparr>Solve_Apply := \<lambda>w v. Inl (Thrown ())\<rparr>))
          ((stub_Bop 5)\<lparr>Mult_Apply := \<lambda>v. Inl (Thrown ())\<rparr>) 2 3 (5 / 2) (None, [])
        = Inr (this', (Some (5 / 2), [Base_constructed 2 3, Shift_set (5 / 2)]))
      \<and> m_nev (Base this') = m_nev (Base this)
      \<and> m_ritz_val (Base this') = m_ritz_val (Base this)
      \<and> m_sigma this' = m_sigma this"
    by blast
  then have unapplied: "\<exists>this'. SymGEigsShiftSolver_ctor (stub_Base_ctor_keeping [1 / 2, 2, - 2])
          (spy ((stub_op [1, 2, 3, 4, 5])\<lparr>Solve_Apply := \<lambda>w v. Inl (Thrown ())\<rparr>))
          ((stub_Bop 5)\<lparr>Mult_Apply := \<lambda>v. Inl (Thrown ())\<rparr>) 2 3 (5 / 2) (None, [])
        = Inr (this', (Some (5 / 2), [Base_constructed 2 3, Shift_set (5 / 2)]))
      \<and> m_nev (Base this') = 2 \<and> m_ritz_val (Base this') = [1 / 2, 2, - 2]
      \<and> m_sigma this' = 5 / 2"
    unfolding members .
  from run members srt rej inh once unapplied show ?thesis by blast
qed

section \<open>The shift is fixed\<close>

text \<open>
  C8. Over the lifetime of a solver object the stored shift is the one given to the
  constructor: it holds after the construction, and neither a member function inherited from
  the Base class, nor the override, whether they return or throw, nor a change of the
  operators alters it. So the rewrite of
  the override, whenever it runs, maps each of the first \<open>m_nev\<close> Ritz values \<open>\<nu>\<close> to
  \<open>1 / \<nu> + \<sigma>\<close> with the constructor's \<open>\<sigma>\<close>.
\<close>

theorem m_sigma_fixed:
  assumes "reachable Base_ctor op Bop nev ncv sigma Base_sort_ritzpair (this, w)"
  shows "m_sigma this = sigma
      \<and> (\<forall>this'. transform_back this = Some this' \<longrightarrow>
            m_sigma this' = sigma
            \<and> (\<forall>i < nat (m_nev (Base this)).
                  m_ritz_val (Base this') ! i = 1 / (m_ritz_val (Base this) ! i) + sigma))"
proof -
  have inv: "m_sigma (fst s) = sigma"
    if "reachable Base_ctor op Bop nev ncv sigma Base_sort_ritzpair s" for s
    using that
  proof (induction rule: reachable.induct)
    case (constructed w this w')
    then show ?case by (auto dest: SymGEigsShiftSolver_ctor_InrD)
  next
    case (inherited this w f this' w')
    then show ?case by (auto dest: via_Base_InrD)
  next
    case (inherited_throws this w f e this' w')
    then show ?case by (auto dest: via_Base_InlD)
  next
    case (sorted this w sort_rule this' w')
    then show ?case by (auto dest!: sort_ritzpair_InrD transform_back_InrD)
  next
    case (sorted_throws this w sort_rule e this' w')
    then show ?case by (auto dest!: sort_ritzpair_InlD transform_back_InrD)
  next
    case (elsewhere this w w')
    then show ?case by simp
  qed
  from inv [OF assms] have sig: "m_sigma this = sigma" by simp
  have "m_sigma this' = sigma
      \<and> (\<forall>i < nat (m_nev (Base this)).
            m_ritz_val (Base this') ! i = 1 / (m_ritz_val (Base this) ! i) + sigma)"
    if tb: "transform_back this = Some this'" for this'
  proof -
    from transform_back_InrD [OF tb]
    have lo: "0 \<le> m_nev (Base this)"
      and hi: "m_nev (Base this) \<le> int (length (m_ritz_val (Base this)))"
      and eq: "this' = this\<lparr>Base := (Base this)\<lparr>m_ritz_val :=
        map (\<lambda>nu. 1 / nu + m_sigma this) (take (nat (m_nev (Base this))) (m_ritz_val (Base this)))
        @ drop (nat (m_nev (Base this))) (m_ritz_val (Base this))\<rparr>\<rparr>"
      by simp_all
    have n: "nat (m_nev (Base this)) \<le> length (m_ritz_val (Base this))"
      using lo hi by simp
    show ?thesis
      unfolding eq using n sig by (simp add: head_block_nth)
  qed
  with sig show ?thesis by blast
qed

theorem m_sigma_fixed_witness:
  "reachable (stub_Base_ctor [1 / 2, 2, - 2]) (spy (stub_op [1, 2, 3, 4, 5])) (stub_Bop 5)
      2 3 (5 / 2) stub_Base_sort_ritzpair
      (scenario [3, 9 / 2, - 2], (Some (5 / 2), [Base_constructed 2 3, Shift_set (5 / 2)]))
   \<and> m_sigma (scenario [3, 9 / 2, - 2]) = 5 / 2
   \<and> transform_back (scenario [3, 9 / 2, - 2]) = Some (scenario [17 / 6, 49 / 18, - 2])
   \<and> 0 < nat (m_nev (Base (scenario [3, 9 / 2, - 2])))
   \<and> m_ritz_val (Base (scenario [17 / 6, 49 / 18, - 2])) ! 0
       = 1 / (m_ritz_val (Base (scenario [3, 9 / 2, - 2])) ! 0) + 5 / 2"
proof -
  have run: "SymGEigsShiftSolver_ctor (stub_Base_ctor [1 / 2, 2, - 2])
       (spy (stub_op [1, 2, 3, 4, 5])) (stub_Bop 5) 2 3 (5 / 2) (None, [])
     = Inr (scenario [1 / 2, 2, - 2], (Some (5 / 2), [Base_constructed 2 3, Shift_set (5 / 2)]))"
    by (simp add: SymGEigsShiftSolver_ctor_def SymGEigsShiftInvertOp_ctor_def stub_Base_ctor_def
          stub_op_def spy_def stub_Bop_def scenario_def)
  have srt: "sort_ritzpair stub_Base_sort_ritzpair SmallestAlge (scenario [1 / 2, 2, - 2])
        (Some (5 / 2 :: rat), [Base_constructed 2 3, Shift_set (5 / 2 :: rat)])
       = Inr (scenario [3, 9 / 2, - 2], (Some (5 / 2), [Base_constructed 2 3, Shift_set (5 / 2)]))"
    by (simp add: sort_ritzpair_def transform_back_def via_Base_def stub_Base_sort_ritzpair_def
          scenario_def)
  have r: "reachable (stub_Base_ctor [1 / 2, 2, - 2]) (spy (stub_op [1, 2, 3, 4, 5])) (stub_Bop 5)
      2 3 (5 / 2) stub_Base_sort_ritzpair
      (scenario [3, 9 / 2, - 2], (Some (5 / 2), [Base_constructed 2 3, Shift_set (5 / 2)]))"
    by (rule reachable.sorted [OF reachable.constructed [OF run] srt])
  have tb: "transform_back (scenario [3, 9 / 2, - 2]) = Some (scenario [17 / 6, 49 / 18, - 2])"
    by (simp add: transform_back_def scenario_def)
  have pos: "0 < nat (m_nev (Base (scenario [3, 9 / 2, - 2])))"
    by (simp add: scenario_def)
  from m_sigma_fixed [OF r] tb pos
  have "m_sigma (scenario [3, 9 / 2, - 2]) = 5 / 2
      \<and> m_ritz_val (Base (scenario [17 / 6, 49 / 18, - 2])) ! 0
          = 1 / (m_ritz_val (Base (scenario [3, 9 / 2, - 2])) ! 0) + 5 / 2"
    by blast
  with r tb pos show ?thesis by blast
qed

section \<open>The eigenvectors\<close>

text \<open>
  C9. The rewrite changes the Base subobject in its Ritz values only: every other member of
  the Base solver, the Ritz vectors among them, is as before, and so is what any member
  function of the Base class that does not read the Ritz values returns. After the override
  the Base subobject is exactly what the Base class's own sort returned, and the class
  declares no accessor of its own: what \<^verbatim>\<open>eigenvalues\<close>, \<^verbatim>\<open>eigenvectors\<close> and
  \<^verbatim>\<open>info\<close> return is what the Base class's functions return on that subobject.
\<close>

theorem eigenvectors_untouched:
  assumes "transform_back this = Some this'"
    and "\<forall>b v. g (b\<lparr>m_ritz_val := v\<rparr>) = g b"
  shows "Base this' = (Base this)\<lparr>m_ritz_val := m_ritz_val (Base this')\<rparr>
      \<and> SymEigsBase.more (Base this') = SymEigsBase.more (Base this)
      \<and> g (Base this') = g (Base this)
      \<and> (\<forall>final w'. sort_ritzpair Base_sort_ritzpair sort_rule this w = Inr (final, w') \<longrightarrow>
            Base_sort_ritzpair sort_rule (Base this') w = Inr (Base final, w'))"
proof -
  from transform_back_InrD [OF assms(1)]
  have eq: "this' = this\<lparr>Base := (Base this)\<lparr>m_ritz_val :=
      map (\<lambda>nu. 1 / nu + m_sigma this) (take (nat (m_nev (Base this))) (m_ritz_val (Base this)))
      @ drop (nat (m_nev (Base this))) (m_ritz_val (Base this))\<rparr>\<rparr>"
    by simp
  have only: "Base this' = (Base this)\<lparr>m_ritz_val := m_ritz_val (Base this')\<rparr>"
    unfolding eq by simp
  have rest: "SymEigsBase.more (Base this') = SymEigsBase.more (Base this)"
    unfolding eq by simp
  have "g (Base this') = g ((Base this)\<lparr>m_ritz_val := m_ritz_val (Base this')\<rparr>)"
    using only by simp
  then have acc: "g (Base this') = g (Base this)"
    using assms(2) by simp
  have "\<forall>final w'. sort_ritzpair Base_sort_ritzpair sort_rule this w = Inr (final, w') \<longrightarrow>
            Base_sort_ritzpair sort_rule (Base this') w = Inr (Base final, w')"
    using assms(1) by (auto dest!: sort_ritzpair_InrD)
  with only rest acc show ?thesis by blast
qed

theorem eigenvectors_untouched_witness:
  "transform_back \<lparr>Base = \<lparr>m_nev = 1, m_ritz_val = [2, 1 / 2 :: rat], \<dots> = [[1, 0], [0, 1 :: rat]]\<rparr>,
                    m_sigma = 5 / 2\<rparr>
     = Some \<lparr>Base = \<lparr>m_nev = 1, m_ritz_val = [3, 1 / 2], \<dots> = [[1, 0], [0, 1]]\<rparr>, m_sigma = 5 / 2\<rparr>
   \<and> (\<forall>b v. SymEigsBase.more (b\<lparr>m_ritz_val := v\<rparr>)
              = SymEigsBase.more (b :: (rat, rat list list) SymEigsBase_scheme))
   \<and> SymEigsBase.more (Base \<lparr>Base = \<lparr>m_nev = 1, m_ritz_val = [3, 1 / 2 :: rat],
                                     \<dots> = [[1, 0], [0, 1 :: rat]]\<rparr>, m_sigma = 5 / 2 :: rat\<rparr>)
       = [[1, 0], [0, 1]]
   \<and> sort_ritzpair stub_Base_sort_ritzpair LargestMagn
        \<lparr>Base = \<lparr>m_nev = 1, m_ritz_val = [2, 1 / 2 :: rat], \<dots> = [[1, 0], [0, 1 :: rat]]\<rparr>,
          m_sigma = 5 / 2\<rparr> ()
       = Inr (\<lparr>Base = \<lparr>m_nev = 1, m_ritz_val = [3, 1 / 2], \<dots> = [[1, 0], [0, 1]]\<rparr>,
               m_sigma = 5 / 2\<rparr>, ())
   \<and> stub_Base_sort_ritzpair LargestMagn
        (Base \<lparr>Base = \<lparr>m_nev = 1, m_ritz_val = [3, 1 / 2 :: rat], \<dots> = [[1, 0], [0, 1 :: rat]]\<rparr>,
                m_sigma = 5 / 2 :: rat\<rparr>) ()
       = Inr (Base \<lparr>Base = \<lparr>m_nev = 1, m_ritz_val = [3, 1 / 2 :: rat], \<dots> = [[1, 0], [0, 1 :: rat]]\<rparr>,
                     m_sigma = 5 / 2 :: rat\<rparr>, ())"
proof -
  have tb: "transform_back \<lparr>Base = \<lparr>m_nev = 1, m_ritz_val = [2, 1 / 2 :: rat],
                                    \<dots> = [[1, 0], [0, 1 :: rat]]\<rparr>, m_sigma = 5 / 2\<rparr>
     = Some \<lparr>Base = \<lparr>m_nev = 1, m_ritz_val = [3, 1 / 2], \<dots> = [[1, 0], [0, 1]]\<rparr>, m_sigma = 5 / 2\<rparr>"
    by (simp add: transform_back_def)
  have g: "\<forall>b v. SymEigsBase.more (b\<lparr>m_ritz_val := v\<rparr>)
              = SymEigsBase.more (b :: (rat, rat list list) SymEigsBase_scheme)"
    by simp
  have srt: "sort_ritzpair stub_Base_sort_ritzpair LargestMagn
        \<lparr>Base = \<lparr>m_nev = 1, m_ritz_val = [2, 1 / 2 :: rat], \<dots> = [[1, 0], [0, 1 :: rat]]\<rparr>,
          m_sigma = 5 / 2\<rparr> ()
       = Inr (\<lparr>Base = \<lparr>m_nev = 1, m_ritz_val = [3, 1 / 2], \<dots> = [[1, 0], [0, 1]]\<rparr>,
               m_sigma = 5 / 2\<rparr>, ())"
    by (simp add: sort_ritzpair_def transform_back_def via_Base_def stub_Base_sort_ritzpair_def)
  from eigenvectors_untouched [OF tb g, of stub_Base_sort_ritzpair LargestMagn "()"] tb g srt
  show ?thesis by simp
qed


end
